theory Spec2Isabelle
  imports Complex_Main "HOL-Library.Word" "HOL-Library.Log_Nat"
begin

section \<open>CMAB (CTR Material Animation Binary): data model\<close>

text \<open>
  A shallow embedding of \<^verbatim>\<open>src/oot3d/cmab.ts\<close>.

  A JavaScript \<^verbatim>\<open>number\<close> is modelled as a \<^typ>\<open>real\<close>; infinities and NaN are
  outside the model. The arithmetic of the linear interpolation, whose result is pinned
  down to the last bit below, rounds every operation to binary64 as the source does;
  the other arithmetic (the subtraction of the frame loop, the Hermite polynomial) is
  exact. Unsigned integers read from the buffer are natural numbers (no arithmetic in
  the source can overflow them: offsets are added as JavaScript numbers). An exception
  is a value \<open>Inl e\<close> of a sum type, and a loop that does not return is the value
  \<open>None\<close>.
\<close>

datatype error =
    MalformedData          \<comment> \<open>a failed \<^verbatim>\<open>assert(...)\<close> of the parsers, or a read outside the buffer\<close>
  | UnsupportedTrackType   \<comment> \<open>\<^verbatim>\<open>throw "whoops"\<close> on a track type that is neither LINEAR nor HERMITE\<close>
  | InvalidEntryType       \<comment> \<open>\<^verbatim>\<open>throw "whoops"\<close> of an animator on an entry of the wrong animation type\<close>
  | TypeError              \<comment> \<open>a field read on \<^verbatim>\<open>undefined\<close>, as in \<^verbatim>\<open>frames[-1].time\<close>\<close>

definition bind_err :: "error + 'a \<Rightarrow> ('a \<Rightarrow> error + 'b) \<Rightarrow> error + 'b" where
  "bind_err m f = (case m of Inl e \<Rightarrow> Inl e | Inr x \<Rightarrow> f x)"

record AnimationKeyframeLinear =
  time :: real
  val :: real

record AnimationKeyframeHermite = AnimationKeyframeLinear +
  tangentIn :: real
  tangentOut :: real

datatype AnimationTrack =
    AnimationTrackLinear "AnimationKeyframeLinear list"
  | AnimationTrackHermite "AnimationKeyframeHermite list"

record AnimationEntry =
  animationType :: nat
  materialIndex :: nat
  channelIndex :: nat
  tracks :: "AnimationTrack option list"

datatype LoopMode = ONCE | REPEAT

record AnimationBase =
  duration :: real
  loopMode :: LoopMode

record CMAB = AnimationBase +
  animEntries :: "AnimationEntry list"

datatype Version = Ocarina | Majora

definition LINEAR :: nat where "LINEAR = 0x01"
definition HERMITE :: nat where "HERMITE = 0x02"

definition TRANSLATION :: nat where "TRANSLATION = 0x01"
definition UNK_04 :: nat where "UNK_04 = 0x04"
definition ROTATION :: nat where "ROTATION = 0x05"

section \<open>Sampling\<close>

subsection \<open>JavaScript arrays\<close>

text \<open>\<^verbatim>\<open>xs[i]\<close> on an array: \<^verbatim>\<open>undefined\<close> (here \<open>None\<close>) outside \<open>0 .. length - 1\<close>.\<close>

definition array_at :: "'a list \<Rightarrow> int \<Rightarrow> 'a option" where
  "array_at xs i = (if 0 \<le> i \<and> i < int (length xs) then Some (xs ! nat i) else None)"

text \<open>An array whose elements may be holes or \<^verbatim>\<open>undefined\<close>: both read as \<open>None\<close>.\<close>

definition slot_at :: "'a option list \<Rightarrow> nat \<Rightarrow> 'a option" where
  "slot_at xs i = (if i < length xs then xs ! i else None)"

text \<open>\<^verbatim>\<open>xs.findIndex(p)\<close>: the first index whose element satisfies \<open>p\<close>, or \<open>-1\<close>.\<close>

fun findIndex :: "('a \<Rightarrow> bool) \<Rightarrow> 'a list \<Rightarrow> int" where
  "findIndex p [] = -1"
| "findIndex p (x # xs) =
     (if p x then 0 else (let r = findIndex p xs in if r < 0 then -1 else r + 1))"

subsection \<open>Binary64 arithmetic\<close>

text \<open>
  The operators \<^verbatim>\<open>+\<close>, \<^verbatim>\<open>-\<close>, \<^verbatim>\<open>*\<close> and \<^verbatim>\<open>/\<close> of JavaScript on numbers: the exact
  result, rounded to the nearest binary64 number, ties to the even significand.

  \<open>pow2 e\<close> is the power \<open>2 ^ e\<close> for an integer \<open>e\<close>, and \<open>binade a\<close> is the exponent
  \<open>e\<close> with \<open>2 ^ e \<le> a < 2 ^ (e + 1)\<close> of a positive \<open>a\<close> (lemma \<open>binade_bounds\<close>
  below), computed from the bit length of the integer part of \<open>a\<close> or of \<open>1 / a\<close>.
\<close>

definition pow2 :: "int \<Rightarrow> real" where
  "pow2 e = (if 0 \<le> e then 2 ^ nat e else 1 / 2 ^ nat (- e))"

definition binade :: "real \<Rightarrow> int" where
  "binade a =
     (if 1 \<le> a then int (floorlog 2 (nat \<lfloor>a\<rfloor>)) - 1
      else let k = int (floorlog 2 (nat \<lfloor>1 / a\<rfloor>)) - 1
           in if a * pow2 k = 1 then - k else - k - 1)"

text \<open>The nearest integer; of two nearest integers, the even one.\<close>

definition roundTiesToEven :: "real \<Rightarrow> int" where
  "roundTiesToEven y =
     (let n = \<lfloor>y\<rfloor>; d = y - of_int n
      in if d < 1 / 2 then n else if 1 / 2 < d then n + 1 else if even n then n else n + 1)"

text \<open>
  Rounding to binary64: a significand of 53 bits, so that the last bit of a number in
  the binade \<open>e\<close> is worth \<open>2 ^ (e - 52)\<close>; below the smallest normal exponent \<open>-1022\<close>
  the last bit stays at \<open>2 ^ (- 1074)\<close> (gradual underflow). A result of magnitude
  \<open>2 ^ 1024\<close> or more, which binary64 turns into an infinity, is outside the model.
\<close>

definition round64 :: "real \<Rightarrow> real" where
  "round64 x =
     (if x = 0 then 0
      else let a = \<bar>x\<bar>;
               e = max (binade a) (- 1022);
               q = pow2 (e - 52)
           in sgn x * of_int (roundTiesToEven (a / q)) * q)"

definition f64_add :: "real \<Rightarrow> real \<Rightarrow> real" where
  "f64_add x y = round64 (x + y)"

definition f64_sub :: "real \<Rightarrow> real \<Rightarrow> real" where
  "f64_sub x y = round64 (x - y)"

definition f64_mul :: "real \<Rightarrow> real \<Rightarrow> real" where
  "f64_mul x y = round64 (x * y)"

text \<open>
  A division by zero, which gives an infinity or NaN in binary64, is outside the model.
  The divisor of the linear interpolation is the rounded difference of two keyframe
  times that differ, since the frame lies between them (lemma \<open>findIndex_bracketed\<close>
  below).
\<close>

definition f64_div :: "real \<Rightarrow> real \<Rightarrow> real" where
  "f64_div x y = round64 (x / y)"

subsection \<open>Per-track sampling\<close>

definition lerp :: "('a AnimationKeyframeLinear_scheme) \<Rightarrow> ('b AnimationKeyframeLinear_scheme) \<Rightarrow> real \<Rightarrow> real" where
  "lerp k0 k1 t = f64_add (val k0) (f64_mul (f64_sub (val k1) (val k0)) t)"

definition sampleAnimationTrackLinear :: "AnimationKeyframeLinear list \<Rightarrow> real \<Rightarrow> error + real" where
  "sampleAnimationTrackLinear frames frame =
     (if length frames = 1 then Inr (val (frames ! 0))
      else
        let idx1 = findIndex (\<lambda>key. frame < time key) frames in
        if idx1 < 0 then
          (case array_at frames (int (length frames) - 1) of
             None \<Rightarrow> Inl TypeError
           | Some k \<Rightarrow> Inr (val k))
        else
          let idx0 = idx1 - 1 in
          (case array_at frames idx0 of
             None \<Rightarrow> Inl TypeError
           | Some k0 \<Rightarrow>
               (case array_at frames idx1 of
                  None \<Rightarrow> Inl TypeError
                | Some k1 \<Rightarrow>
                    let t = f64_div (f64_sub frame (time k0)) (f64_sub (time k1) (time k0)) in
                    Inr (lerp k0 k1 t))))"

definition cubicEval :: "real \<Rightarrow> real \<Rightarrow> real \<Rightarrow> real \<Rightarrow> real \<Rightarrow> real" where
  "cubicEval cf0 cf1 cf2 cf3 t = (((cf0 * t + cf1) * t + cf2) * t + cf3)"

definition hermiteInterpolate :: "AnimationKeyframeHermite \<Rightarrow> AnimationKeyframeHermite \<Rightarrow> real \<Rightarrow> real" where
  "hermiteInterpolate k0 k1 t =
     (let length = time k1 - time k0;
          p0 = val k0;
          p1 = val k1;
          s0 = tangentOut k0 * length;
          s1 = tangentIn k1 * length;
          cf0 = (p0 * 2) + (p1 * (-2)) + (s0 * 1) + (s1 * 1);
          cf1 = (p0 * (-3)) + (p1 * 3) + (s0 * (-2)) + (s1 * (-1));
          cf2 = (p0 * 0) + (p1 * 0) + (s0 * 1) + (s1 * 0);
          cf3 = (p0 * 1) + (p1 * 0) + (s0 * 0) + (s1 * 0)
      in cubicEval cf0 cf1 cf2 cf3 t)"

definition sampleAnimationTrackHermite :: "AnimationKeyframeHermite list \<Rightarrow> real \<Rightarrow> error + real" where
  "sampleAnimationTrackHermite frames frame =
     (if length frames = 1 then Inr (val (frames ! 0))
      else
        let idx1 = findIndex (\<lambda>key. frame < time key) frames in
        if idx1 < 0 then
          (case array_at frames (int (length frames) - 1) of
             None \<Rightarrow> Inl TypeError
           | Some k \<Rightarrow> Inr (val k))
        else
          let idx0 = idx1 - 1 in
          (case array_at frames idx0 of
             None \<Rightarrow> Inl TypeError
           | Some k0 \<Rightarrow>
               (case array_at frames idx1 of
                  None \<Rightarrow> Inl TypeError
                | Some k1 \<Rightarrow>
                    if time k1 - time k0 = 1 then Inr (val k0)
                    else
                      let t = (frame - time k0) / (time k1 - time k0) in
                      Inr (hermiteInterpolate k0 k1 t))))"

text \<open>
  The final \<^verbatim>\<open>throw "whoops"\<close> of the source's \<^verbatim>\<open>sampleAnimationTrack\<close> has no
  counterpart: the track type is the constructor of \<^typ>\<open>AnimationTrack\<close>.
\<close>

fun sampleAnimationTrack :: "AnimationTrack \<Rightarrow> real \<Rightarrow> error + real" where
  "sampleAnimationTrack (AnimationTrackLinear frames) frame = sampleAnimationTrackLinear frames frame"
| "sampleAnimationTrack (AnimationTrackHermite frames) frame = sampleAnimationTrackHermite frames frame"

subsection \<open>Frame normalization\<close>

text \<open>
  The \<^verbatim>\<open>while (frame > lastFrame) frame -= lastFrame;\<close> loop of \<^verbatim>\<open>getAnimFrame\<close>.
  It need not end, so it is a partial function: \<open>None\<close> stands for a loop that runs
  forever.
\<close>

partial_function (option) getAnimFrame_while :: "real \<Rightarrow> real \<Rightarrow> real option" where
  "getAnimFrame_while lastFrame frame =
     (if frame > lastFrame then getAnimFrame_while lastFrame (frame - lastFrame)
      else Some frame)"

text \<open>
  The last \<^verbatim>\<open>throw "whoops"\<close> of the source has no counterpart: \<^typ>\<open>LoopMode\<close> has
  the two values of the source's enum.
\<close>

definition getAnimFrame :: "'a AnimationBase_scheme \<Rightarrow> real \<Rightarrow> real option" where
  "getAnimFrame anim frame =
     (let lastFrame = duration anim in
      case loopMode anim of
        ONCE \<Rightarrow> Some (if frame > lastFrame then lastFrame else frame)
      | REPEAT \<Rightarrow> getAnimFrame_while lastFrame frame)"

subsection \<open>Composition into a matrix or a colour\<close>

type_synonym mat4 = "real list"

definition mat4_identity :: mat4 where
  "mat4_identity = [1, 0, 0, 0,  0, 1, 0, 0,  0, 0, 1, 0,  0, 0, 0, 1]"

text \<open>
  \<^verbatim>\<open>mat4.rotateZ(out, a, rad)\<close> of the gl-matrix library, for \<open>out\<close> and \<open>a\<close>
  the same matrix: the first two columns are rotated, the others are kept.
\<close>

definition mat4_rotateZ :: "mat4 \<Rightarrow> real \<Rightarrow> mat4" where
  "mat4_rotateZ a rad =
     (let s = sin rad; c = cos rad;
          a00 = a ! 0; a01 = a ! 1; a02 = a ! 2; a03 = a ! 3;
          a10 = a ! 4; a11 = a ! 5; a12 = a ! 6; a13 = a ! 7
      in a[0 := a00 * c + a10 * s,
           1 := a01 * c + a11 * s,
           2 := a02 * c + a12 * s,
           3 := a03 * c + a13 * s,
           4 := a10 * c - a00 * s,
           5 := a11 * c - a01 * s,
           6 := a12 * c - a02 * s,
           7 := a13 * c - a03 * s])"

datatype Color = RGBA real real real real

text \<open>
  The expression
  \<^verbatim>\<open>tracks[i] !== undefined ? sampleAnimationTrack(tracks[i], animFrame) : dflt\<close>
  of both animators.
\<close>

definition sampleSlot :: "AnimationTrack option list \<Rightarrow> nat \<Rightarrow> real \<Rightarrow> real \<Rightarrow> error + real" where
  "sampleSlot trks i animFrame dflt =
     (case slot_at trks i of
        Some track \<Rightarrow> sampleAnimationTrack track animFrame
      | None \<Rightarrow> Inr dflt)"

text \<open>
  \<^verbatim>\<open>TextureAnimator.calcTexMtx\<close>. The time \<open>timeInFrames\<close> is what the animation
  controller reports; \<^verbatim>\<open>dst\<close> is reset to the identity first, so the result does not
  depend on it. The outer \<open>None\<close> is a frame normalization that does not return.
\<close>

definition calcTexMtx :: "CMAB \<Rightarrow> AnimationEntry \<Rightarrow> real \<Rightarrow> (error + mat4) option" where
  "calcTexMtx cmab animEntry timeInFrames =
     (case getAnimFrame cmab timeInFrames of
        None \<Rightarrow> None
      | Some animFrame \<Rightarrow> Some (
          let dst = mat4_identity in
          if animationType animEntry = TRANSLATION then
            bind_err (sampleSlot (tracks animEntry) 0 animFrame 0) (\<lambda>tx.
            bind_err (sampleSlot (tracks animEntry) 1 animFrame 0) (\<lambda>ty.
            Inr (dst[12 := - tx, 13 := - ty])))
          else if animationType animEntry = ROTATION then
            bind_err (sampleSlot (tracks animEntry) 0 animFrame 0) (\<lambda>r.
            Inr (mat4_rotateZ dst r))
          else Inl InvalidEntryType))"

text \<open>\<^verbatim>\<open>ColorAnimator.calcMaterialColor\<close>.\<close>

definition calcMaterialColor :: "CMAB \<Rightarrow> AnimationEntry \<Rightarrow> real \<Rightarrow> (error + Color) option" where
  "calcMaterialColor cmab animEntry timeInFrames =
     (case getAnimFrame cmab timeInFrames of
        None \<Rightarrow> None
      | Some animFrame \<Rightarrow> Some (
          bind_err (sampleSlot (tracks animEntry) 0 animFrame 1) (\<lambda>r.
          bind_err (sampleSlot (tracks animEntry) 1 animFrame 1) (\<lambda>g.
          bind_err (sampleSlot (tracks animEntry) 2 animFrame 1) (\<lambda>b.
          bind_err (sampleSlot (tracks animEntry) 3 animFrame 1) (\<lambda>a.
          Inr (RGBA r g b a)))))))"

section \<open>Binary reader\<close>

text \<open>
  Modelled from the spec: the class \<^verbatim>\<open>ArrayBufferSlice\<close> of \<^verbatim>\<open>../ArrayBufferSlice\<close> is
  not among the sources. The buffer is an immutable sequence of bytes, and
  \<^verbatim>\<open>buffer.slice(offs)\<close> is the sub-view that starts at offset \<open>offs\<close>; a view that
  starts past the end is empty, so that every read from it fails.
\<close>

type_synonym ArrayBufferSlice = "8 word list"

definition slice :: "ArrayBufferSlice \<Rightarrow> nat \<Rightarrow> ArrayBufferSlice" where
  "slice buffer offs = drop offs buffer"

text \<open>
  \<^verbatim>\<open>DataView.getUint16(off, true)\<close> and \<^verbatim>\<open>DataView.getUint32(off, true)\<close> of the
  JavaScript platform: little-endian, and a read that leaves the buffer throws (a
  \<^verbatim>\<open>RangeError\<close>, which is \<open>MalformedData\<close> in the taxonomy of the specification).
\<close>

definition getUint16 :: "ArrayBufferSlice \<Rightarrow> nat \<Rightarrow> error + nat" where
  "getUint16 view off =
     (if off + 2 \<le> length view
      then Inr (unat (view ! off) + 2 ^ 8 * unat (view ! (off + 1)))
      else Inl MalformedData)"

definition getUint32 :: "ArrayBufferSlice \<Rightarrow> nat \<Rightarrow> error + nat" where
  "getUint32 view off =
     (if off + 4 \<le> length view
      then Inr (unat (view ! off) + 2 ^ 8 * unat (view ! (off + 1))
                + 2 ^ 16 * unat (view ! (off + 2)) + 2 ^ 24 * unat (view ! (off + 3)))
      else Inl MalformedData)"

text \<open>
  The value of an IEEE-754 binary32 bit pattern: sign bit, 8 exponent bits, 23 fraction
  bits. The patterns with exponent 255 (the infinities and NaN) have no real value; they
  are read here as if the exponent were an ordinary one, and nothing below evaluates
  them.
\<close>

definition float32_value :: "nat \<Rightarrow> real" where
  "float32_value bits =
     (let s = bits div 2 ^ 31;
          e = (bits div 2 ^ 23) mod 2 ^ 8;
          m = bits mod 2 ^ 23;
          sgn = (if s = 1 then - 1 else 1)
      in if e = 0 then sgn * real m / 2 ^ 149
         else sgn * real (2 ^ 23 + m) * 2 ^ e / 2 ^ 150)"

text \<open>\<^verbatim>\<open>DataView.getFloat32(off, true)\<close>: the four bytes of \<^verbatim>\<open>getUint32\<close>, read as binary32.\<close>

definition getFloat32 :: "ArrayBufferSlice \<Rightarrow> nat \<Rightarrow> error + real" where
  "getFloat32 view off = bind_err (getUint32 view off) (\<lambda>bits. Inr (float32_value bits))"

text \<open>
  Modelled from the spec: \<^verbatim>\<open>readString\<close> of \<^verbatim>\<open>../util\<close> is not among the sources.
  \<^verbatim>\<open>readString(buffer, offs, length, false)\<close> reads a fixed-length ASCII tag, one
  character for each byte, and a read beyond the buffer fails with \<open>MalformedData\<close>.
\<close>

definition readString :: "ArrayBufferSlice \<Rightarrow> nat \<Rightarrow> nat \<Rightarrow> error + string" where
  "readString buffer offs len =
     (if offs + len \<le> length buffer
      then Inr (map (\<lambda>b. char_of (unat b)) (take len (drop offs buffer)))
      else Inl MalformedData)"

text \<open>
  Modelled from the spec: \<^verbatim>\<open>assert\<close> of \<^verbatim>\<open>../util\<close> is not among the sources. A
  signature or constant that does not match fails with \<open>MalformedData\<close>.
\<close>

definition assert :: "bool \<Rightarrow> error + unit" where
  "assert c = (if c then Inr () else Inl MalformedData)"

section \<open>Parsing\<close>

text \<open>\<^verbatim>\<open>xs[i] = v\<close> on a JavaScript array: a write past the end extends the array with holes.\<close>

definition array_set :: "'a option list \<Rightarrow> nat \<Rightarrow> 'a option \<Rightarrow> 'a option list" where
  "array_set xs i v =
     (if i < length xs then xs[i := v]
      else xs @ replicate (i - length xs) None @ [v])"

subsection \<open>Tracks\<close>

text \<open>The two keyframe loops of \<^verbatim>\<open>parseTrack\<close>; the last argument counts the rounds left.\<close>

fun parseKeyframesLinear :: "ArrayBufferSlice \<Rightarrow> nat \<Rightarrow> nat \<Rightarrow> error + AnimationKeyframeLinear list" where
  "parseKeyframesLinear view keyframeTableIdx 0 = Inr []"
| "parseKeyframesLinear view keyframeTableIdx (Suc n) =
     bind_err (getUint32 view (keyframeTableIdx + 0x00)) (\<lambda>time.
     bind_err (getFloat32 view (keyframeTableIdx + 0x04)) (\<lambda>value.
     bind_err (parseKeyframesLinear view (keyframeTableIdx + 0x08) n) (\<lambda>frames.
     Inr (\<lparr>time = real time, val = value\<rparr> # frames))))"

fun parseKeyframesHermite :: "ArrayBufferSlice \<Rightarrow> nat \<Rightarrow> nat \<Rightarrow> error + AnimationKeyframeHermite list" where
  "parseKeyframesHermite view keyframeTableIdx 0 = Inr []"
| "parseKeyframesHermite view keyframeTableIdx (Suc n) =
     bind_err (getUint32 view (keyframeTableIdx + 0x00)) (\<lambda>time.
     bind_err (getFloat32 view (keyframeTableIdx + 0x04)) (\<lambda>value.
     bind_err (getUint32 view (keyframeTableIdx + 0x08)) (\<lambda>tangentIn.
     bind_err (getUint32 view (keyframeTableIdx + 0x0C)) (\<lambda>tangentOut.
     bind_err (parseKeyframesHermite view (keyframeTableIdx + 0x10) n) (\<lambda>frames.
     Inr (\<lparr>time = real time, val = value,
           tangentIn = real tangentIn, tangentOut = real tangentOut\<rparr> # frames))))))"

text \<open>
  The header of a track, as the two branches on the version read it:
  \<open>(type, numKeyframes, timeEnd, unk1, unk2)\<close>.
\<close>

definition parseTrackHeader :: "Version \<Rightarrow> ArrayBufferSlice \<Rightarrow> error + (nat \<times> nat \<times> nat \<times> real \<times> nat)" where
  "parseTrackHeader version view =
     (case version of
        Ocarina \<Rightarrow>
          bind_err (getUint32 view 0x00) (\<lambda>type.
          bind_err (getUint32 view 0x04) (\<lambda>numKeyframes.
          bind_err (getUint32 view 0x08) (\<lambda>timeEnd.
          bind_err (getUint32 view 0x0C) (\<lambda>unk2.
          Inr (type, numKeyframes, timeEnd, 1.0, unk2)))))
      | Majora \<Rightarrow>
          bind_err (getUint16 view 0x00) (\<lambda>type.
          bind_err (getUint16 view 0x02) (\<lambda>numKeyframes.
          bind_err (getUint32 view 0x04) (\<lambda>timeEnd.
          bind_err (getFloat32 view 0x08) (\<lambda>unk1.
          bind_err (getUint32 view 0x0C) (\<lambda>unk2.
          Inr (type, numKeyframes, timeEnd, unk1, unk2)))))))"

text \<open>\<^verbatim>\<open>parseTrack\<close>: \<open>Inr None\<close> is the source's \<^verbatim>\<open>return undefined\<close>.\<close>

definition parseTrack :: "Version \<Rightarrow> ArrayBufferSlice \<Rightarrow> error + AnimationTrack option" where
  "parseTrack version buffer =
     bind_err (parseTrackHeader version buffer) (\<lambda>(type, numKeyframes, timeEnd, unk1, unk2).
       let keyframeTableIdx = 0x10 in
       if numKeyframes = 0 then Inr None
       else if type = LINEAR then
         bind_err (parseKeyframesLinear buffer keyframeTableIdx numKeyframes) (\<lambda>frames.
         Inr (Some (AnimationTrackLinear frames)))
       else if type = HERMITE then
         bind_err (parseKeyframesHermite buffer keyframeTableIdx numKeyframes) (\<lambda>frames.
         Inr (Some (AnimationTrackHermite frames)))
       else Inl UnsupportedTrackType)"

text \<open>
  The two header fields that decide what \<^verbatim>\<open>parseTrack\<close> returns, as the source reads
  them: 32 bits wide at offsets 0 and 4 for Ocarina, 16 bits wide at offsets 0 and 2 for
  Majora.
\<close>

definition trackTypeField :: "Version \<Rightarrow> ArrayBufferSlice \<Rightarrow> error + nat" where
  "trackTypeField version view =
     (case version of Ocarina \<Rightarrow> getUint32 view 0x00 | Majora \<Rightarrow> getUint16 view 0x00)"

definition numKeyframesField :: "Version \<Rightarrow> ArrayBufferSlice \<Rightarrow> error + nat" where
  "numKeyframesField version view =
     (case version of Ocarina \<Rightarrow> getUint32 view 0x04 | Majora \<Rightarrow> getUint16 view 0x02)"

subsection \<open>Animation entries\<close>

text \<open>
  The track-offset loop of \<^verbatim>\<open>parseMmad\<close>, the same for the three animation types up to
  its bound: \<open>i\<close> is the loop counter and the next argument counts the rounds left.
\<close>

fun parseMmadTracks ::
  "Version \<Rightarrow> ArrayBufferSlice \<Rightarrow> nat \<Rightarrow> nat \<Rightarrow> nat \<Rightarrow> AnimationTrack option list
     \<Rightarrow> error + AnimationTrack option list" where
  "parseMmadTracks version buffer trackOffsTableIdx i 0 trks = Inr trks"
| "parseMmadTracks version buffer trackOffsTableIdx i (Suc n) trks =
     bind_err (getUint16 buffer trackOffsTableIdx) (\<lambda>trackOffs.
       if trackOffs = 0x00 then
         parseMmadTracks version buffer (trackOffsTableIdx + 0x02) (i + 1) n trks
       else
         bind_err (parseTrack version (slice buffer trackOffs)) (\<lambda>track.
         parseMmadTracks version buffer (trackOffsTableIdx + 0x02) (i + 1) n
           (array_set trks i track)))"

definition parseMmad :: "Version \<Rightarrow> ArrayBufferSlice \<Rightarrow> error + AnimationEntry" where
  "parseMmad version buffer =
     bind_err (readString buffer 0x00 0x04) (\<lambda>sig.
     bind_err (assert (sig = ''mmad'')) (\<lambda>_.
     bind_err (getUint32 buffer 0x04) (\<lambda>animationType.
     bind_err (getUint32 buffer 0x08) (\<lambda>materialIndex.
     bind_err (getUint32 buffer 0x0C) (\<lambda>channelIndex.
     let trackOffsTableIdx = 0x10 in
     bind_err
       (if animationType = TRANSLATION then parseMmadTracks version buffer trackOffsTableIdx 0 2 []
        else if animationType = UNK_04 then parseMmadTracks version buffer trackOffsTableIdx 0 4 []
        else if animationType = ROTATION then parseMmadTracks version buffer trackOffsTableIdx 0 1 []
        else Inr [])
       (\<lambda>trks.
     Inr \<lparr>animationType = animationType, materialIndex = materialIndex,
          channelIndex = channelIndex, tracks = trks\<rparr>))))))"

subsection \<open>The container\<close>

text \<open>The entry loop of \<^verbatim>\<open>parse\<close>; the last argument counts the rounds left.\<close>

fun parseAnimEntries ::
  "Version \<Rightarrow> ArrayBufferSlice \<Rightarrow> nat \<Rightarrow> nat \<Rightarrow> nat \<Rightarrow> error + AnimationEntry list" where
  "parseAnimEntries version buffer madsChunkOffs mmadAnimationTableIdx 0 = Inr []"
| "parseAnimEntries version buffer madsChunkOffs mmadAnimationTableIdx (Suc n) =
     bind_err (getUint32 buffer (mmadAnimationTableIdx + 0x00)) (\<lambda>offs.
     let mmadAnimChunkOffs = madsChunkOffs + offs in
     bind_err (parseMmad version (slice buffer mmadAnimChunkOffs)) (\<lambda>entry.
     bind_err (parseAnimEntries version buffer madsChunkOffs (mmadAnimationTableIdx + 0x04) n)
       (\<lambda>entries.
     Inr (entry # entries))))"

definition parse :: "Version \<Rightarrow> ArrayBufferSlice \<Rightarrow> error + CMAB" where
  "parse version buffer =
     bind_err (readString buffer 0x00 0x04) (\<lambda>sig.
     bind_err (assert (sig = ''cmab'')) (\<lambda>_.
     bind_err (getUint32 buffer 0x04) (\<lambda>subversion.
     bind_err (assert (subversion = 0x01)) (\<lambda>_.
     bind_err (getUint32 buffer 0x08) (\<lambda>size.
     bind_err (getUint32 buffer 0x0C) (\<lambda>x0C.
     bind_err (assert (x0C = 0x00)) (\<lambda>_.
     bind_err (getUint32 buffer 0x10) (\<lambda>x10.
     bind_err (assert (x10 = 0x01)) (\<lambda>_.
     bind_err (getUint32 buffer 0x14) (\<lambda>x14.
     bind_err (assert (x14 = 0x20)) (\<lambda>_.
     bind_err (getUint32 buffer 0x18) (\<lambda>strTableChunkOffs.
     bind_err (readString buffer strTableChunkOffs 0x04) (\<lambda>strt.
     bind_err (assert (strt = ''strt'')) (\<lambda>_.
     bind_err (getUint32 buffer 0x20) (\<lambda>x20.
     bind_err (assert (x20 = 0xFFFFFFFF)) (\<lambda>_.
     bind_err (getUint32 buffer 0x24) (\<lambda>duration.
     bind_err (getUint32 buffer 0x2C) (\<lambda>x2C.
     bind_err (assert (x2C = 0x14)) (\<lambda>_.
     let loopMode = REPEAT; madsChunkOffs = 0x34 in
     bind_err (readString buffer (madsChunkOffs + 0x00) 0x04) (\<lambda>mads.
     bind_err (assert (mads = ''mads'')) (\<lambda>_.
     bind_err (getUint32 buffer (madsChunkOffs + 0x04)) (\<lambda>numAnimations.
     bind_err (parseAnimEntries version buffer madsChunkOffs (madsChunkOffs + 0x08) numAnimations)
       (\<lambda>animEntries.
     Inr \<lparr>duration = real duration, loopMode = loopMode,
          animEntries = animEntries\<rparr>)))))))))))))))))))))))"

section \<open>Example inputs\<close>

text \<open>A linear track from 0 at frame 0 to 10 at frame 10, and containers that hold it.\<close>

definition ex_linear_track :: AnimationTrack where
  "ex_linear_track = AnimationTrackLinear [\<lparr>time = 0, val = 0\<rparr>, \<lparr>time = 10, val = 10\<rparr>]"

definition ex_translation_entry :: AnimationEntry where
  "ex_translation_entry =
     \<lparr>animationType = TRANSLATION, materialIndex = 0, channelIndex = 0,
      tracks = [Some ex_linear_track]\<rparr>"

definition ex_cmab :: "LoopMode \<Rightarrow> real \<Rightarrow> CMAB" where
  "ex_cmab mode d = \<lparr>duration = d, loopMode = mode, animEntries = [ex_translation_entry]\<rparr>"

definition ex_linear_frames :: "AnimationKeyframeLinear list" where
  "ex_linear_frames = [\<lparr>time = 0, val = 1\<rparr>, \<lparr>time = 4, val = 3\<rparr>, \<lparr>time = 8, val = 11\<rparr>]"

definition ex_hermite_frames :: "AnimationKeyframeHermite list" where
  "ex_hermite_frames =
     [\<lparr>time = 3, val = 7, tangentIn = 100, tangentOut = 200\<rparr>,
      \<lparr>time = 4, val = 9, tangentIn = 300, tangentOut = 400\<rparr>]"

text \<open>A linear track on which the interpolation at frame 15 rounds.\<close>

definition rounding_frames :: "AnimationKeyframeLinear list" where
  "rounding_frames = [\<lparr>time = 0, val = 0\<rparr>, \<lparr>time = 22, val = 22\<rparr>]"

text \<open>
  A complete Ocarina file: duration 10, one ROTATION entry at \<open>0x40\<close>, whose only track
  (at \<open>0x54\<close>) is linear with the keyframes \<open>(5, 1.0)\<close> and \<open>(10, 2.0)\<close>; the string
  table chunk follows at \<open>0x74\<close>.
\<close>

definition late_start_buffer :: ArrayBufferSlice where
  "late_start_buffer =
     [0x63, 0x6D, 0x61, 0x62, 0x01, 0x00, 0x00, 0x00, 0x78, 0x00, 0x00, 0x00, 0x00, 0x00, 0x00, 0x00,
      0x01, 0x00, 0x00, 0x00, 0x20, 0x00, 0x00, 0x00, 0x74, 0x00, 0x00, 0x00, 0x00, 0x00, 0x00, 0x00,
      0xFF, 0xFF, 0xFF, 0xFF, 0x0A, 0x00, 0x00, 0x00, 0x01, 0x00, 0x00, 0x00, 0x14, 0x00, 0x00, 0x00,
      0x00, 0x00, 0x00, 0x00, 0x6D, 0x61, 0x64, 0x73, 0x01, 0x00, 0x00, 0x00, 0x0C, 0x00, 0x00, 0x00,
      0x6D, 0x6D, 0x61, 0x64, 0x05, 0x00, 0x00, 0x00, 0x00, 0x00, 0x00, 0x00, 0x00, 0x00, 0x00, 0x00,
      0x14, 0x00, 0x00, 0x00, 0x01, 0x00, 0x00, 0x00, 0x02, 0x00, 0x00, 0x00, 0x0A, 0x00, 0x00, 0x00,
      0x00, 0x00, 0x00, 0x00, 0x05, 0x00, 0x00, 0x00, 0x00, 0x00, 0x80, 0x3F, 0x0A, 0x00, 0x00, 0x00,
      0x00, 0x00, 0x00, 0x40, 0x73, 0x74, 0x72, 0x74]"

definition late_start_frames :: "AnimationKeyframeLinear list" where
  "late_start_frames = [\<lparr>time = 5, val = 1\<rparr>, \<lparr>time = 10, val = 2\<rparr>]"

definition late_start_entry :: AnimationEntry where
  "late_start_entry =
     \<lparr>animationType = ROTATION, materialIndex = 0, channelIndex = 0,
      tracks = [Some (AnimationTrackLinear late_start_frames)]\<rparr>"

definition late_start_cmab :: CMAB where
  "late_start_cmab = \<lparr>duration = 10, loopMode = REPEAT, animEntries = [late_start_entry]\<rparr>"

text \<open>The same file with a track of type 3 that declares one keyframe.\<close>

definition type3_cmab_buffer :: ArrayBufferSlice where
  "type3_cmab_buffer =
     [0x63, 0x6D, 0x61, 0x62, 0x01, 0x00, 0x00, 0x00, 0x70, 0x00, 0x00, 0x00, 0x00, 0x00, 0x00, 0x00,
      0x01, 0x00, 0x00, 0x00, 0x20, 0x00, 0x00, 0x00, 0x6C, 0x00, 0x00, 0x00, 0x00, 0x00, 0x00, 0x00,
      0xFF, 0xFF, 0xFF, 0xFF, 0x0A, 0x00, 0x00, 0x00, 0x01, 0x00, 0x00, 0x00, 0x14, 0x00, 0x00, 0x00,
      0x00, 0x00, 0x00, 0x00, 0x6D, 0x61, 0x64, 0x73, 0x01, 0x00, 0x00, 0x00, 0x0C, 0x00, 0x00, 0x00,
      0x6D, 0x6D, 0x61, 0x64, 0x05, 0x00, 0x00, 0x00, 0x00, 0x00, 0x00, 0x00, 0x00, 0x00, 0x00, 0x00,
      0x14, 0x00, 0x00, 0x00, 0x03, 0x00, 0x00, 0x00, 0x01, 0x00, 0x00, 0x00, 0x0A, 0x00, 0x00, 0x00,
      0x00, 0x00, 0x00, 0x00, 0x05, 0x00, 0x00, 0x00, 0x00, 0x00, 0x80, 0x3F, 0x73, 0x74, 0x72, 0x74]"

text \<open>A complete file of duration 0 with no animation entry.\<close>

definition zero_duration_buffer :: ArrayBufferSlice where
  "zero_duration_buffer =
     [0x63, 0x6D, 0x61, 0x62, 0x01, 0x00, 0x00, 0x00, 0x40, 0x00, 0x00, 0x00, 0x00, 0x00, 0x00, 0x00,
      0x01, 0x00, 0x00, 0x00, 0x20, 0x00, 0x00, 0x00, 0x3C, 0x00, 0x00, 0x00, 0x00, 0x00, 0x00, 0x00,
      0xFF, 0xFF, 0xFF, 0xFF, 0x00, 0x00, 0x00, 0x00, 0x01, 0x00, 0x00, 0x00, 0x14, 0x00, 0x00, 0x00,
      0x00, 0x00, 0x00, 0x00, 0x6D, 0x61, 0x64, 0x73, 0x00, 0x00, 0x00, 0x00, 0x73, 0x74, 0x72, 0x74]"

definition zero_duration_cmab :: CMAB where
  "zero_duration_cmab = \<lparr>duration = 0, loopMode = REPEAT, animEntries = []\<rparr>"

text \<open>
  An Ocarina Hermite track with one keyframe: time 4, value 0.5, and the tangent bytes
  \<open>00 00 80 3F\<close> (the binary32 number 1.0) and \<open>00 00 00 C0\<close> (the binary32 number -2.0).
\<close>

definition hermite_track_buffer :: ArrayBufferSlice where
  "hermite_track_buffer =
     [0x02, 0x00, 0x00, 0x00, 0x01, 0x00, 0x00, 0x00, 0x04, 0x00, 0x00, 0x00, 0x00, 0x00, 0x00, 0x00,
      0x04, 0x00, 0x00, 0x00, 0x00, 0x00, 0x00, 0x3F, 0x00, 0x00, 0x80, 0x3F, 0x00, 0x00, 0x00, 0xC0]"

text \<open>Track headers of type 3: without keyframes (both versions), and with one keyframe.\<close>

definition type3_empty_track_buffer :: ArrayBufferSlice where
  "type3_empty_track_buffer =
     [0x03, 0x00, 0x00, 0x00, 0x00, 0x00, 0x00, 0x00, 0x00, 0x00, 0x00, 0x00, 0x00, 0x00, 0x00, 0x00]"

definition type3_empty_track_buffer_majora :: ArrayBufferSlice where
  "type3_empty_track_buffer_majora =
     [0x03, 0x00, 0x00, 0x00, 0x00, 0x00, 0x00, 0x00, 0x00, 0x00, 0x80, 0x3F, 0x00, 0x00, 0x00, 0x00]"

text \<open>The first 12 bytes of the Ocarina header of type 3 without keyframes.\<close>

definition truncated_empty_track_buffer :: ArrayBufferSlice where
  "truncated_empty_track_buffer =
     [0x03, 0x00, 0x00, 0x00, 0x00, 0x00, 0x00, 0x00, 0x00, 0x00, 0x00, 0x00]"

definition type3_track_buffer_majora :: ArrayBufferSlice where
  "type3_track_buffer_majora =
     [0x03, 0x00, 0x01, 0x00, 0x00, 0x00, 0x00, 0x00, 0x00, 0x00, 0x80, 0x3F, 0x00, 0x00, 0x00, 0x00]"

text \<open>The ASCII bytes of the tag \<open>cmab\<close>, and a buffer that starts with another tag.\<close>

definition cmab_signature :: "8 word list" where
  "cmab_signature = [0x63, 0x6D, 0x61, 0x62]"

definition wrong_signature_buffer :: ArrayBufferSlice where
  "wrong_signature_buffer =
     [0x63, 0x6D, 0x64, 0x6C, 0x01, 0x00, 0x00, 0x00]"

section \<open>Auxiliary lemmas\<close>

subsection \<open>Evaluation\<close>

lemma bind_err_Inr: "bind_err (Inr x) f = f x"
  by (simp add: bind_err_def)

lemma bind_err_Inl: "bind_err (Inl e) f = Inl e"
  by (simp add: bind_err_def)

lemma bind_err_weak_cong: "m = m' \<Longrightarrow> bind_err m f = bind_err m' f"
  by simp

lemma bind_err_InlE:
  assumes "bind_err m f = Inl e"
  obtains "m = Inl e" | x where "m = Inr x" and "f x = Inl e"
  using assms by (cases m) (simp_all add: bind_err_def)

lemma bind_err_InrE:
  assumes "bind_err m f = Inr y"
  obtains x where "m = Inr x" and "f x = Inr y"
  using assms by (cases m) (simp_all add: bind_err_def)

lemma parseKeyframesLinear_numeral:
  "parseKeyframesLinear view idx (numeral k) =
     bind_err (getUint32 view (idx + 0x00)) (\<lambda>time.
     bind_err (getFloat32 view (idx + 0x04)) (\<lambda>value.
     bind_err (parseKeyframesLinear view (idx + 0x08) (pred_numeral k)) (\<lambda>frames.
     Inr (\<lparr>time = real time, val = value\<rparr> # frames))))"
  by (simp add: numeral_eq_Suc)

lemma parseMmadTracks_numeral:
  "parseMmadTracks version buffer idx i (numeral k) trks =
     bind_err (getUint16 buffer idx) (\<lambda>trackOffs.
       if trackOffs = 0x00 then
         parseMmadTracks version buffer (idx + 0x02) (i + 1) (pred_numeral k) trks
       else
         bind_err (parseTrack version (slice buffer trackOffs)) (\<lambda>track.
         parseMmadTracks version buffer (idx + 0x02) (i + 1) (pred_numeral k)
           (array_set trks i track)))"
  by (simp add: numeral_eq_Suc)

lemma parseAnimEntries_numeral:
  "parseAnimEntries version buffer m idx (numeral k) =
     bind_err (getUint32 buffer (idx + 0x00)) (\<lambda>offs.
     let mmadAnimChunkOffs = m + offs in
     bind_err (parseMmad version (slice buffer mmadAnimChunkOffs)) (\<lambda>entry.
     bind_err (parseAnimEntries version buffer m (idx + 0x04) (pred_numeral k))
       (\<lambda>entries.
     Inr (entry # entries))))"
  by (simp add: numeral_eq_Suc)

lemmas parse_eval =
  parse_def parseMmad_def parseTrack_def parseTrackHeader_def
  getUint32_def getUint16_def getFloat32_def float32_value_def
  readString_def assert_def slice_def array_set_def
  bind_err_Inr bind_err_Inl char_of_eq_iff
  LINEAR_def HERMITE_def TRANSLATION_def UNK_04_def ROTATION_def
  parseKeyframesLinear_numeral parseMmadTracks_numeral parseAnimEntries_numeral

subsection \<open>Binary64 rounding\<close>

lemma pow2_pos: "0 < pow2 e"
  by (simp add: pow2_def)

lemma pow2_Suc: "pow2 (e + 1) = 2 * pow2 e"
proof (cases "0 \<le> e")
  case True
  then show ?thesis by (simp add: pow2_def nat_add_distrib)
next
  case False
  then have "nat (- e) = Suc (nat (- e - 1))" by simp
  with False show ?thesis by (auto simp: pow2_def)
qed

text \<open>\<open>binade a\<close> is the floor of the binary logarithm of \<open>a\<close>.\<close>

lemma binade_bounds_ge1:
  assumes "1 \<le> a"
  shows "pow2 (binade a) \<le> a \<and> a < pow2 (binade a + 1)"
proof -
  define n where "n = nat \<lfloor>a\<rfloor>"
  from assms have n: "0 < n" "real n \<le> a" "a < real n + 1" unfolding n_def by linarith+
  from floorlog_bounds[of n 2] n(1)
  have fb: "2 ^ (floorlog 2 n - 1) \<le> n" "n < 2 ^ floorlog 2 n" by simp_all
  from n(1) have fl: "0 < floorlog 2 n" by (simp add: floorlog_def)
  have b: "binade a = int (floorlog 2 n) - 1" using assms by (simp add: binade_def n_def)
  have lo: "pow2 (binade a) = 2 ^ (floorlog 2 n - 1)"
    using fl by (simp add: b pow2_def nat_diff_distrib)
  have hi: "pow2 (binade a + 1) = 2 ^ floorlog 2 n" by (simp add: b pow2_def)
  from fb(1) have "real (2 ^ (floorlog 2 n - 1)) \<le> real n" by (simp only: of_nat_le_iff)
  then have l: "(2::real) ^ (floorlog 2 n - 1) \<le> real n" by simp
  from fb(2) have "Suc n \<le> 2 ^ floorlog 2 n" by simp
  then have "real (Suc n) \<le> real (2 ^ floorlog 2 n)" by (simp only: of_nat_le_iff)
  then have h: "real n + 1 \<le> 2 ^ floorlog 2 n" by simp
  from l h n show ?thesis unfolding lo hi by linarith
qed

lemma binade_bounds_lt1:
  assumes "0 < a" and small: "\<not> 1 \<le> a"
  shows "pow2 (binade a) \<le> a \<and> a < pow2 (binade a + 1)"
proof -
  define n where "n = nat \<lfloor>1 / a\<rfloor>"
  from small assms have "1 < 1 / a" by simp
  then have n: "0 < n" "real n \<le> 1 / a" "1 / a < real n + 1" unfolding n_def by linarith+
  from floorlog_bounds[of n 2] n(1)
  have fb: "2 ^ (floorlog 2 n - 1) \<le> n" "n < 2 ^ floorlog 2 n" by simp_all
  from n(1) have fl: "0 < floorlog 2 n" by (simp add: floorlog_def)
  define k where "k = floorlog 2 n - 1"
  have k1: "floorlog 2 n = Suc k" using fl by (simp add: k_def)
  from fb(1) have "real (2 ^ k) \<le> real n" unfolding k_def by (simp only: of_nat_le_iff)
  then have "(2::real) ^ k \<le> real n" by simp
  with n(2) have lo: "2 ^ k \<le> 1 / a" by linarith
  from fb(2) have "Suc n \<le> 2 ^ Suc k" unfolding k1 by simp
  then have "real (Suc n) \<le> real (2 ^ Suc k)" by (simp only: of_nat_le_iff)
  then have "real n + 1 \<le> 2 ^ Suc k" by simp
  with n(3) have hi: "1 / a < 2 ^ Suc k" by linarith
  from lo assms have ale: "a \<le> 1 / 2 ^ k" by (simp add: field_simps)
  from hi assms have agt: "1 / 2 ^ Suc k < a" by (simp add: field_simps)
  have pk: "pow2 (int k) = 2 ^ k" by (simp add: pow2_def)
  have kk: "int (floorlog 2 (nat \<lfloor>1 / a\<rfloor>)) - 1 = int k" using k1 by (simp add: n_def)
  show ?thesis
  proof (cases "a * 2 ^ k = 1")
    case True
    then have b: "binade a = - int k" using small by (simp add: binade_def kk pk Let_def)
    from True have a: "a = 1 / 2 ^ k" by (simp add: field_simps)
    have p0: "pow2 (- int k) = 1 / 2 ^ k" by (simp add: pow2_def)
    have e1: "pow2 (binade a) = a" by (simp only: b p0 a[symmetric])
    have e2: "pow2 (binade a + 1) = 2 * a" by (simp only: pow2_Suc e1)
    from assms(1) show ?thesis unfolding e1 e2 by simp
  next
    case ne: False
    then have b: "binade a = - int k - 1" using small by (simp add: binade_def kk pk Let_def)
    have p1: "pow2 (- int k - 1) = 1 / 2 ^ Suc k" by (simp add: pow2_def nat_add_distrib)
    have p2: "pow2 (- int k - 1 + 1) = 1 / 2 ^ k" by (simp add: pow2_def)
    from ne have "a \<noteq> 1 / 2 ^ k" by auto
    with ale have "a < 1 / 2 ^ k" by linarith
    with agt show ?thesis unfolding b p1 p2 by simp
  qed
qed

lemma binade_bounds:
  assumes "0 < a"
  shows "pow2 (binade a) \<le> a \<and> a < pow2 (binade a + 1)"
proof (cases "1 \<le> a")
  case True
  then show ?thesis by (rule binade_bounds_ge1)
next
  case False
  with assms show ?thesis by (rule binade_bounds_lt1)
qed

text \<open>\<open>roundTiesToEven\<close> returns a nearest integer, and the even one at a tie.\<close>

lemma roundTiesToEven_nearest: "\<bar>of_int (roundTiesToEven y) - y\<bar> \<le> 1 / 2"
proof -
  have "of_int \<lfloor>y\<rfloor> \<le> y" "y < of_int \<lfloor>y\<rfloor> + 1" by linarith+
  then show ?thesis
    unfolding roundTiesToEven_def Let_def by (simp split: if_splits)
qed

lemma roundTiesToEven_tie: "y - of_int \<lfloor>y\<rfloor> = 1 / 2 \<Longrightarrow> even (roundTiesToEven y)"
  by (simp add: roundTiesToEven_def Let_def)

text \<open>The rounding error is at most half the worth of the last bit.\<close>

lemma round64_error:
  assumes "x \<noteq> 0"
  shows "\<bar>round64 x - x\<bar> \<le> pow2 (max (binade \<bar>x\<bar>) (- 1022) - 52) / 2"
proof -
  define q where "q = pow2 (max (binade \<bar>x\<bar>) (- 1022) - 52)"
  define n where "n = roundTiesToEven (\<bar>x\<bar> / q)"
  have q: "0 < q" unfolding q_def by (rule pow2_pos)
  have r: "round64 x = sgn x * of_int n * q"
    using assms by (simp add: round64_def Let_def q_def n_def)
  have "\<bar>of_int n - \<bar>x\<bar> / q\<bar> \<le> 1 / 2" unfolding n_def by (rule roundTiesToEven_nearest)
  then have "\<bar>of_int n - \<bar>x\<bar> / q\<bar> * q \<le> 1 / 2 * q" using q by (intro mult_right_mono) simp_all
  moreover have "\<bar>of_int n - \<bar>x\<bar> / q\<bar> * q = \<bar>of_int n * q - \<bar>x\<bar>\<bar>"
  proof -
    have "(of_int n - \<bar>x\<bar> / q) * q = of_int n * q - \<bar>x\<bar>"
      using q by (simp add: left_diff_distrib)
    then have "\<bar>of_int n * q - \<bar>x\<bar>\<bar> = \<bar>(of_int n - \<bar>x\<bar> / q) * q\<bar>" by simp
    also have "\<dots> = \<bar>of_int n - \<bar>x\<bar> / q\<bar> * q" using q by (simp add: abs_mult)
    finally show ?thesis by simp
  qed
  ultimately have e: "\<bar>of_int n * q - \<bar>x\<bar>\<bar> \<le> q / 2" by simp
  have "\<bar>sgn x * of_int n * q - x\<bar> = \<bar>of_int n * q - \<bar>x\<bar>\<bar>"
  proof (cases "0 < x")
    case True
    then show ?thesis by simp
  next
    case False
    with assms have "x < 0" by simp
    then show ?thesis by simp
  qed
  with e r show ?thesis unfolding q_def by simp
qed

text \<open>Evaluation of \<open>round64\<close> at the numbers of the examples, one step at a time.\<close>

lemma round64_eval:
  assumes "x \<noteq> 0" and "binade \<bar>x\<bar> = b" and "max b (- 1022) = e"
    and "roundTiesToEven (\<bar>x\<bar> / pow2 (e - 52)) = n"
    and "sgn x * of_int n * pow2 (e - 52) = y"
  shows "round64 x = y"
  using assms by (simp add: round64_def Let_def)

lemmas round64_steps = binade_def compute_floorlog roundTiesToEven_def pow2_def Let_def

lemma round64_0: "round64 0 = 0"
  by (simp add: round64_def)

lemma round64_1: "round64 1 = 1"
  by (rule round64_eval[where b = 0 and e = 0 and n = "2 ^ 52"]) (simp_all add: round64_steps)

lemma round64_2: "round64 2 = 2"
  by (rule round64_eval[where b = 1 and e = 1 and n = "2 ^ 52"]) (simp_all add: round64_steps)

lemma round64_4: "round64 4 = 4"
  by (rule round64_eval[where b = 2 and e = 2 and n = "2 ^ 52"]) (simp_all add: round64_steps)

lemma round64_5: "round64 5 = 5"
  by (rule round64_eval[where b = 2 and e = 2 and n = "5 * 2 ^ 50"]) (simp_all add: round64_steps)

lemma round64_8: "round64 8 = 8"
  by (rule round64_eval[where b = 3 and e = 3 and n = "2 ^ 52"]) (simp_all add: round64_steps)

lemma round64_10: "round64 10 = 10"
  by (rule round64_eval[where b = 3 and e = 3 and n = "10 * 2 ^ 49"]) (simp_all add: round64_steps)

lemma round64_15: "round64 15 = 15"
  by (rule round64_eval[where b = 3 and e = 3 and n = "15 * 2 ^ 49"]) (simp_all add: round64_steps)

lemma round64_22: "round64 22 = 22"
  by (rule round64_eval[where b = 4 and e = 4 and n = "22 * 2 ^ 48"]) (simp_all add: round64_steps)

lemma round64_half: "round64 (1 / 2) = 1 / 2"
  by (rule round64_eval[where b = "- 1" and e = "- 1" and n = "2 ^ 52"])
     (simp_all add: round64_steps)

lemma round64_quarter: "round64 (1 / 4) = 1 / 4"
  by (rule round64_eval[where b = "- 2" and e = "- 2" and n = "2 ^ 52"])
     (simp_all add: round64_steps)

text \<open>
  The quotient \<open>15 / 22\<close> is not a binary64 number: it is rounded down to
  \<open>6141272219141585 / 2 ^ 53\<close>. The product of 22 and that number, \<open>15 - 10 / 2 ^ 53\<close>,
  is rounded down again, to the binary64 number just below 15.
\<close>

lemma round64_15_22: "round64 (15 / 22) = 6141272219141585 / 2 ^ 53"
  by (rule round64_eval[where b = "- 1" and e = "- 1" and n = "6141272219141585"])
     (simp_all add: round64_steps)

lemma round64_below_15:
  assumes "x = 15 - 10 / 2 ^ 53"
  shows "round64 x = 15 - 1 / 2 ^ 49"
  unfolding assms
  by (rule round64_eval[where b = 3 and e = 3 and n = "15 * 2 ^ 49 - 1"])
     (simp_all add: round64_steps)

lemma round64_pred_15:
  assumes "x = 15 - 1 / 2 ^ 49"
  shows "round64 x = 15 - 1 / 2 ^ 49"
  unfolding assms
  by (rule round64_eval[where b = 3 and e = 3 and n = "15 * 2 ^ 49 - 1"])
     (simp_all add: round64_steps)

lemmas f64_defs = f64_add_def f64_sub_def f64_mul_def f64_div_def

lemmas sample_eval =
  calcTexMtx_def calcMaterialColor_def sampleSlot_def slot_at_def array_at_def
  sampleAnimationTrackLinear_def sampleAnimationTrackHermite_def lerp_def
  f64_defs round64_0 round64_10
  bind_err_Inr bind_err_Inl TRANSLATION_def UNK_04_def ROTATION_def mat4_identity_def

lemma parse_late_start_buffer: "parse Ocarina late_start_buffer = Inr late_start_cmab"
  by (simp add: late_start_buffer_def late_start_cmab_def late_start_entry_def
      late_start_frames_def parse_eval cong: bind_err_weak_cong prod.case_cong_weak)

lemma parse_zero_duration_buffer: "parse Ocarina zero_duration_buffer = Inr zero_duration_cmab"
  by (simp add: zero_duration_buffer_def zero_duration_cmab_def parse_eval
      cong: bind_err_weak_cong prod.case_cong_weak)

subsection \<open>Finding the bracketing keyframes\<close>

lemma findIndex_first:
  "n < length xs \<Longrightarrow> p (xs ! n) \<Longrightarrow> (\<forall>j<n. \<not> p (xs ! j)) \<Longrightarrow> findIndex p xs = int n"
proof (induction xs arbitrary: n)
  case Nil
  then show ?case by simp
next
  case (Cons x xs)
  show ?case
  proof (cases n)
    case 0
    with Cons.prems show ?thesis by simp
  next
    case (Suc m)
    from Cons.prems Suc have nx: "\<not> p x" by auto
    from Cons.prems Suc have "m < length xs" "p (xs ! m)" "\<forall>j<m. \<not> p (xs ! j)" by auto
    then have "findIndex p xs = int m" by (rule Cons.IH)
    with nx Suc show ?thesis by simp
  qed
qed

lemma findIndex_bracket:
  fixes frames :: "('a AnimationKeyframeLinear_scheme) list"
  assumes srt: "sorted (map time frames)"
    and i: "i + 1 < length frames"
    and lo: "time (frames ! i) \<le> f"
    and hi: "f < time (frames ! (i + 1))"
  shows "findIndex (\<lambda>key. f < time key) frames = int (i + 1)"
proof (rule findIndex_first)
  show "i + 1 < length frames" by (rule i)
  show "f < time (frames ! (i + 1))" by (rule hi)
  show "\<forall>j<i + 1. \<not> f < time (frames ! j)"
  proof (intro allI impI)
    fix j assume j: "j < i + 1"
    with i have "map time frames ! j \<le> map time frames ! i"
      by (intro sorted_nth_mono[OF srt]) auto
    with i j have "time (frames ! j) \<le> time (frames ! i)" by simp
    with lo show "\<not> f < time (frames ! j)" by simp
  qed
qed

text \<open>
  Whatever the order of the keyframes, the index that \<^verbatim>\<open>findIndex\<close> returns brackets
  the frame: the keyframe before it is not later than the frame, and the keyframe at it
  is later. So the two times differ, and the interpolation does not divide by zero.
\<close>

lemma findIndex_bracketed:
  "findIndex p xs = int (Suc n) \<Longrightarrow> Suc n < length xs \<and> \<not> p (xs ! n) \<and> p (xs ! Suc n)"
proof (induction xs arbitrary: n)
  case Nil
  then show ?case by simp
next
  case (Cons x xs)
  from Cons.prems have nx: "\<not> p x" by (auto split: if_splits)
  with Cons.prems have r: "findIndex p xs = int n"
    by (auto simp: Let_def split: if_splits)
  show ?case
  proof (cases n)
    case 0
    with r have "findIndex p xs = 0" by simp
    then have "xs \<noteq> [] \<and> p (xs ! 0)"
      by (cases xs) (auto simp: Let_def split: if_splits)
    with nx 0 show ?thesis by (cases xs) auto
  next
    case (Suc m)
    with r have "findIndex p xs = int (Suc m)" by simp
    from Cons.IH[OF this] Suc show ?thesis by simp
  qed
qed

text \<open>The linear sample between two consecutive keyframes, as the source computes it.\<close>

lemma linear_sample_between:
  assumes "sorted (map time frames)"
    and "i + 1 < length frames"
    and "time (frames ! i) \<le> f"
    and "f < time (frames ! (i + 1))"
  shows "sampleAnimationTrackLinear frames f =
           Inr (f64_add (val (frames ! i))
                  (f64_mul (f64_sub (val (frames ! (i + 1))) (val (frames ! i)))
                     (f64_div (f64_sub f (time (frames ! i)))
                        (f64_sub (time (frames ! (i + 1))) (time (frames ! i))))))"
proof -
  have idx: "findIndex (\<lambda>key. f < time key) frames = int (i + 1)"
    using assms by (rule findIndex_bracket)
  from assms(2) have len: "length frames \<noteq> 1" by simp
  from assms(2) show ?thesis
    by (simp add: sampleAnimationTrackLinear_def idx len array_at_def lerp_def Let_def
        nat_add_distrib)
qed

subsection \<open>The frame loop\<close>

lemma getAnimFrame_while_done:
  "frame \<le> lastFrame \<Longrightarrow> getAnimFrame_while lastFrame frame = Some frame"
  by (subst getAnimFrame_while.simps) simp

lemma getAnimFrame_while_step:
  "lastFrame < frame \<Longrightarrow>
     getAnimFrame_while lastFrame frame = getAnimFrame_while lastFrame (frame - lastFrame)"
  by (subst getAnimFrame_while.simps) simp

text \<open>With a last frame of 0 the loop subtracts nothing, and on a positive frame never ends.\<close>

lemma getAnimFrame_while_returns:
  assumes "getAnimFrame_while l f = Some y"
  shows "\<not> (l = 0 \<and> 0 < f)"
proof (rule getAnimFrame_while.raw_induct
    [where P = "\<lambda>l f y. \<not> (l = 0 \<and> 0 < f)", OF _ assms])
  fix g :: "real \<Rightarrow> real \<Rightarrow> real option" and lastFrame frame y
  assume ih: "\<And>lastFrame frame y. g lastFrame frame = Some y \<Longrightarrow> \<not> (lastFrame = 0 \<and> 0 < frame)"
    and step: "(if lastFrame < frame then g lastFrame (frame - lastFrame) else Some frame) = Some y"
  show "\<not> (lastFrame = 0 \<and> 0 < frame)"
  proof
    assume a: "lastFrame = 0 \<and> 0 < frame"
    with step have "g 0 frame = Some y" by simp
    from ih[OF this] a show False by simp
  qed
qed

lemma getAnimFrame_while_zero: "0 < frame \<Longrightarrow> getAnimFrame_while 0 frame = None"
  using getAnimFrame_while_returns[of 0 frame] by (cases "getAnimFrame_while 0 frame") auto

lemma calc_cong:
  "getAnimFrame cmab t = getAnimFrame cmab t' \<Longrightarrow>
     calcTexMtx cmab e t = calcTexMtx cmab e t' \<and>
     calcMaterialColor cmab e t = calcMaterialColor cmab e t'"
  by (simp add: calcTexMtx_def calcMaterialColor_def)

subsection \<open>Errors and results of the parsers\<close>

lemma getUint16_Inl: "getUint16 view off = Inl e \<Longrightarrow> e = MalformedData"
  by (simp add: getUint16_def split: if_splits)

lemma getUint32_Inl: "getUint32 view off = Inl e \<Longrightarrow> e = MalformedData"
  by (simp add: getUint32_def split: if_splits)

lemma getFloat32_Inl: "getFloat32 view off = Inl e \<Longrightarrow> e = MalformedData"
  by (auto simp: getFloat32_def elim!: bind_err_InlE dest: getUint32_Inl)

lemma readString_Inl: "readString buffer offs len = Inl e \<Longrightarrow> e = MalformedData"
  by (simp add: readString_def split: if_splits)

lemma assert_Inl: "assert c = Inl e \<Longrightarrow> e = MalformedData"
  by (simp add: assert_def split: if_splits)

lemmas reader_Inl = getUint16_Inl getUint32_Inl getFloat32_Inl readString_Inl assert_Inl

lemma parseKeyframesLinear_Inl:
  "parseKeyframesLinear view idx n = Inl e \<Longrightarrow> e = MalformedData"
  by (induction n arbitrary: idx) (auto elim!: bind_err_InlE dest: reader_Inl)

lemma parseKeyframesHermite_Inl:
  "parseKeyframesHermite view idx n = Inl e \<Longrightarrow> e = MalformedData"
  by (induction n arbitrary: idx) (auto elim!: bind_err_InlE dest: reader_Inl)

lemma parseTrackHeader_Inl:
  "parseTrackHeader version view = Inl e \<Longrightarrow> e = MalformedData"
  by (cases version) (auto simp: parseTrackHeader_def elim!: bind_err_InlE dest: reader_Inl)

text \<open>A buffer of 16 bytes or more holds a whole header, and the header has the two fields.\<close>

lemma parseTrackHeader_complete:
  assumes "16 \<le> length view"
  shows "\<exists>type numKeyframes timeEnd unk1 unk2.
           parseTrackHeader version view = Inr (type, numKeyframes, timeEnd, unk1, unk2)
           \<and> trackTypeField version view = Inr type
           \<and> numKeyframesField version view = Inr numKeyframes"
  using assms
  by (cases version)
     (simp_all add: parseTrackHeader_def trackTypeField_def numKeyframesField_def
        getUint32_def getUint16_def getFloat32_def bind_err_Inr)

lemma parseTrack_Inl:
  "parseTrack version buffer = Inl e \<Longrightarrow> e = MalformedData \<or> e = UnsupportedTrackType"
  by (auto simp: parseTrack_def elim!: bind_err_InlE split: if_splits
      dest: parseTrackHeader_Inl parseKeyframesLinear_Inl parseKeyframesHermite_Inl)

lemma parseMmadTracks_Inl:
  "parseMmadTracks version buffer idx i n trks = Inl e \<Longrightarrow>
     e = MalformedData \<or> e = UnsupportedTrackType"
  by (induction n arbitrary: idx i trks)
     (auto elim!: bind_err_InlE split: if_splits dest: reader_Inl parseTrack_Inl)

lemma parseMmad_Inl:
  "parseMmad version buffer = Inl e \<Longrightarrow> e = MalformedData \<or> e = UnsupportedTrackType"
  by (auto simp: parseMmad_def simp del: parseMmadTracks.simps elim!: bind_err_InlE
      split: if_splits dest!: reader_Inl parseMmadTracks_Inl)

lemma parseAnimEntries_Inl:
  "parseAnimEntries version buffer m idx n = Inl e \<Longrightarrow>
     e = MalformedData \<or> e = UnsupportedTrackType"
  by (induction n arbitrary: idx)
     (auto simp: Let_def elim!: bind_err_InlE dest: reader_Inl parseMmad_Inl)

text \<open>A successful entry loop has parsed every entry of the offset table, in order.\<close>

lemma parseAnimEntries_Inr:
  "parseAnimEntries version buffer m idx n = Inr entries \<Longrightarrow>
     length entries = n \<and>
     (\<forall>i<n. \<exists>offs. getUint32 buffer (idx + 4 * i) = Inr offs \<and>
                    parseMmad version (slice buffer (m + offs)) = Inr (entries ! i))"
proof (induction n arbitrary: idx entries)
  case 0
  then show ?case by simp
next
  case (Suc n)
  from Suc.prems obtain offs entry rest where
    o: "getUint32 buffer idx = Inr offs" and
    e: "parseMmad version (slice buffer (m + offs)) = Inr entry" and
    r: "parseAnimEntries version buffer m (idx + 4) n = Inr rest" and
    es: "entries = entry # rest"
    by (auto simp: Let_def elim!: bind_err_InrE)
  from Suc.IH[OF r] have len: "length rest = n" and
    nth: "\<forall>i<n. \<exists>offs. getUint32 buffer (idx + 4 + 4 * i) = Inr offs \<and>
                    parseMmad version (slice buffer (m + offs)) = Inr (rest ! i)"
    by simp_all
  show ?case
  proof (intro conjI allI impI)
    show "length entries = Suc n" using es len by simp
  next
    fix i assume i: "i < Suc n"
    show "\<exists>offs. getUint32 buffer (idx + 4 * i) = Inr offs \<and>
                 parseMmad version (slice buffer (m + offs)) = Inr (entries ! i)"
    proof (cases i)
      case 0
      with o e es show ?thesis by simp
    next
      case (Suc j)
      with i have "j < n" by simp
      with nth obtain offs' where
        "getUint32 buffer (idx + 4 + 4 * j) = Inr offs'"
        "parseMmad version (slice buffer (m + offs')) = Inr (rest ! j)" by blast
      with Suc es show ?thesis by (simp add: algebra_simps)
    qed
  qed
qed

lemma parse_Inl:
  "parse version buffer = Inl e \<Longrightarrow> e = MalformedData \<or> e = UnsupportedTrackType"
  unfolding parse_def Let_def
  by (elim bind_err_InlE) (auto dest!: reader_Inl parseAnimEntries_Inl)

lemma parse_Inr:
  assumes "parse version buffer = Inr cmab"
  shows "\<exists>d n. getUint32 buffer 0x24 = Inr d \<and> duration cmab = real d \<and> loopMode cmab = REPEAT
           \<and> getUint32 buffer 0x38 = Inr n
           \<and> parseAnimEntries version buffer 0x34 0x3C n = Inr (animEntries cmab)"
  using assms unfolding parse_def Let_def
  by (elim bind_err_InrE) auto

lemma byte_of_char:
  fixes b :: "8 word"
  assumes "char_of (unat b) = c"
  shows "b = of_nat (of_char c)"
proof -
  have "unat b < 2 ^ 8" using unsigned_less[of b, where ?'a = nat] by simp
  then have "take_bit 8 (unat b) = unat b" by (simp add: take_bit_nat_eq_self_iff)
  with assms have "unat b = of_char c" by (simp add: char_of_eq_iff)
  then have "of_nat (unat b) = (of_nat (of_char c) :: 8 word)" by simp
  then show ?thesis by simp
qed

lemma readString_cmab:
  assumes "readString buffer 0 4 = Inr ''cmab''"
  shows "take 4 buffer = cmab_signature"
proof -
  from assms have m: "map (\<lambda>b. char_of (unat b)) (take 4 buffer) = ''cmab''"
    by (simp add: readString_def split: if_splits)
  from m obtain b0 b1 b2 b3 where t: "take 4 buffer = [b0, b1, b2, b3]"
    and c: "char_of (unat b0) = CHR ''c''" "char_of (unat b1) = CHR ''m''"
           "char_of (unat b2) = CHR ''a''" "char_of (unat b3) = CHR ''b''"
    by (auto simp: map_eq_Cons_conv)
  from c have "b0 = 0x63" "b1 = 0x6D" "b2 = 0x61" "b3 = 0x62"
    by (auto dest!: byte_of_char)
  with t show ?thesis by (simp add: cmab_signature_def)
qed

lemma parse_wrong_signature:
  assumes "take 4 buffer \<noteq> cmab_signature"
  shows "parse version buffer = Inl MalformedData"
proof (cases "readString buffer 0 4")
  case (Inl e)
  then have "e = MalformedData" by (rule readString_Inl)
  with Inl show ?thesis by (simp add: parse_def bind_err_Inl cong: bind_err_weak_cong)
next
  case (Inr sig)
  with assms have "sig \<noteq> ''cmab''" using readString_cmab by blast
  with Inr show ?thesis
    by (simp add: parse_def bind_err_Inl bind_err_Inr assert_def cong: bind_err_weak_cong)
qed

section \<open>Track parsing\<close>

text \<open>
  C1 (what the source does instead). A Hermite keyframe is 16 bytes: time, value,
  tangent-in, tangent-out. \<^verbatim>\<open>parseTrack\<close> reads the value with \<^verbatim>\<open>getFloat32\<close> but
  both tangents with \<^verbatim>\<open>getUint32\<close>: on the track whose tangent bytes are the binary32
  numbers 1.0 and -2.0 the keyframe holds the integers 1065353216 and 3221225472, while
  the float reading of the same bytes is 1 and -2.
\<close>

theorem hermite_tangents_read_as_uint32:
  "parseTrack Ocarina hermite_track_buffer =
     Inr (Some (AnimationTrackHermite
       [\<lparr>time = 4, val = 1 / 2, tangentIn = 1065353216, tangentOut = 3221225472\<rparr>]))
   \<and> getFloat32 hermite_track_buffer 0x18 = Inr 1
   \<and> getFloat32 hermite_track_buffer 0x1C = Inr (- 2)"
  by (simp add: hermite_track_buffer_def parse_eval cong: bind_err_weak_cong prod.case_cong_weak)

text \<open>
  C5 (amended). For both versions, on a buffer that holds a whole 16-byte track header
  whose type field is neither LINEAR (1) nor HERMITE (2) and whose keyframe count is not
  zero, \<^verbatim>\<open>parseTrack\<close> fails with \<open>UnsupportedTrackType\<close>.
\<close>

theorem parseTrack_unsupported_type:
  assumes "16 \<le> length buffer"
    and "trackTypeField version buffer = Inr type"
    and "type \<noteq> LINEAR" and "type \<noteq> HERMITE"
    and "numKeyframesField version buffer = Inr numKeyframes"
    and "numKeyframes \<noteq> 0"
  shows "parseTrack version buffer = Inl UnsupportedTrackType"
proof -
  from parseTrackHeader_complete[OF assms(1), of version] assms(2,5)
  obtain timeEnd unk1 unk2 where
    "parseTrackHeader version buffer = Inr (type, numKeyframes, timeEnd, unk1, unk2)"
    by auto
  with assms(3,4,6) show ?thesis by (simp add: parseTrack_def bind_err_Inr)
qed

text \<open>
  The claim as stated fails where the count is zero: the Ocarina header of type 3 with no
  keyframes parses to the absent track.
\<close>

theorem parseTrack_unsupported_type_counterexample:
  "trackTypeField Ocarina type3_empty_track_buffer = Inr 0x03
   \<and> 0x03 \<noteq> LINEAR \<and> 0x03 \<noteq> HERMITE
   \<and> parseTrack Ocarina type3_empty_track_buffer = Inr None
   \<and> parseTrack Ocarina type3_empty_track_buffer \<noteq> Inl UnsupportedTrackType"
  by (simp add: type3_empty_track_buffer_def trackTypeField_def parse_eval
      cong: bind_err_weak_cong prod.case_cong_weak)

theorem parseTrack_unsupported_type_witness:
  "16 \<le> length type3_track_buffer_majora
   \<and> trackTypeField Majora type3_track_buffer_majora = Inr 0x03
   \<and> 0x03 \<noteq> LINEAR \<and> 0x03 \<noteq> HERMITE
   \<and> numKeyframesField Majora type3_track_buffer_majora = Inr 1
   \<and> (1::nat) \<noteq> 0
   \<and> parseTrack Majora type3_track_buffer_majora = Inl UnsupportedTrackType"
proof -
  have l: "16 \<le> length type3_track_buffer_majora"
    by (simp add: type3_track_buffer_majora_def)
  have t: "trackTypeField Majora type3_track_buffer_majora = Inr 0x03"
    by (simp add: type3_track_buffer_majora_def trackTypeField_def getUint16_def)
  have n: "numKeyframesField Majora type3_track_buffer_majora = Inr 1"
    by (simp add: type3_track_buffer_majora_def numKeyframesField_def getUint16_def)
  have d: "0x03 \<noteq> LINEAR" "0x03 \<noteq> HERMITE" "(1::nat) \<noteq> 0"
    by (simp_all add: LINEAR_def HERMITE_def)
  from parseTrack_unsupported_type[OF l t d(1,2) n d(3)] l t n d show ?thesis by simp
qed

text \<open>
  C10 (amended). For both versions, on a buffer that holds a whole 16-byte track header
  whose keyframe count is zero, \<^verbatim>\<open>parseTrack\<close> returns the absent track, whatever the
  type field holds: the type is not looked at. The witness is a Majora header of type 3.
\<close>

theorem parseTrack_zero_keyframes:
  assumes "16 \<le> length buffer"
    and "numKeyframesField version buffer = Inr 0"
  shows "parseTrack version buffer = Inr None"
proof -
  from parseTrackHeader_complete[OF assms(1), of version] assms(2)
  obtain type timeEnd unk1 unk2 where
    "parseTrackHeader version buffer = Inr (type, 0, timeEnd, unk1, unk2)"
    by auto
  then show ?thesis by (simp add: parseTrack_def bind_err_Inr)
qed

text \<open>
  The claim as stated fails on a buffer that ends inside the header: \<^verbatim>\<open>parseTrack\<close>
  reads all the header fields before it tests the count, so on the first 12 bytes of
  an Ocarina header of type 3 and count 0 the read at offset 12 leaves the buffer and
  throws.
\<close>

theorem parseTrack_zero_keyframes_counterexample:
  "numKeyframesField Ocarina truncated_empty_track_buffer = Inr 0
   \<and> trackTypeField Ocarina truncated_empty_track_buffer = Inr 0x03
   \<and> parseTrack Ocarina truncated_empty_track_buffer = Inl MalformedData
   \<and> parseTrack Ocarina truncated_empty_track_buffer \<noteq> Inr None"
  by (simp add: truncated_empty_track_buffer_def numKeyframesField_def trackTypeField_def
      parse_eval cong: bind_err_weak_cong prod.case_cong_weak)

theorem parseTrack_zero_keyframes_witness:
  "16 \<le> length type3_empty_track_buffer_majora
   \<and> numKeyframesField Majora type3_empty_track_buffer_majora = Inr 0
   \<and> trackTypeField Majora type3_empty_track_buffer_majora = Inr 0x03
   \<and> 0x03 \<noteq> LINEAR \<and> 0x03 \<noteq> HERMITE
   \<and> parseTrack Majora type3_empty_track_buffer_majora = Inr None"
proof -
  have l: "16 \<le> length type3_empty_track_buffer_majora"
    by (simp add: type3_empty_track_buffer_majora_def)
  have n: "numKeyframesField Majora type3_empty_track_buffer_majora = Inr 0"
    by (simp add: type3_empty_track_buffer_majora_def numKeyframesField_def getUint16_def)
  have t: "trackTypeField Majora type3_empty_track_buffer_majora = Inr 0x03"
    by (simp add: type3_empty_track_buffer_majora_def trackTypeField_def getUint16_def)
  have d: "0x03 \<noteq> LINEAR" "0x03 \<noteq> HERMITE"
    by (simp_all add: LINEAR_def HERMITE_def)
  from parseTrack_zero_keyframes[OF l n] l n t d show ?thesis by simp
qed

section \<open>Container parsing\<close>

text \<open>
  C6 (amended). For every buffer and version, \<^verbatim>\<open>parse\<close> either returns a container
  (its duration is the field at \<open>0x24\<close>, its loop mode is REPEAT, and it has one entry
  for each of the \<open>n\<close> offsets of the table at \<open>0x3C\<close>, each the result of
  \<^verbatim>\<open>parseMmad\<close> at that offset from the \<open>mads\<close> chunk), or fails with
  \<open>MalformedData\<close> or with \<open>UnsupportedTrackType\<close>, and then returns no container. A buffer
  whose first four bytes are not the tag \<open>cmab\<close> fails with \<open>MalformedData\<close>.
\<close>

theorem parse_all_or_nothing:
  "((\<exists>cmab d n. parse version buffer = Inr cmab
        \<and> getUint32 buffer 0x24 = Inr d \<and> duration cmab = real d \<and> loopMode cmab = REPEAT
        \<and> getUint32 buffer 0x38 = Inr n \<and> length (animEntries cmab) = n
        \<and> (\<forall>i<n. \<exists>offs. getUint32 buffer (0x3C + 4 * i) = Inr offs \<and>
               parseMmad version (slice buffer (0x34 + offs)) = Inr (animEntries cmab ! i)))
     \<or> parse version buffer = Inl MalformedData
     \<or> parse version buffer = Inl UnsupportedTrackType)
   \<and> (take 4 buffer \<noteq> cmab_signature \<longrightarrow> parse version buffer = Inl MalformedData)"
proof
  show "(\<exists>cmab d n. parse version buffer = Inr cmab
        \<and> getUint32 buffer 0x24 = Inr d \<and> duration cmab = real d \<and> loopMode cmab = REPEAT
        \<and> getUint32 buffer 0x38 = Inr n \<and> length (animEntries cmab) = n
        \<and> (\<forall>i<n. \<exists>offs. getUint32 buffer (0x3C + 4 * i) = Inr offs \<and>
               parseMmad version (slice buffer (0x34 + offs)) = Inr (animEntries cmab ! i)))
     \<or> parse version buffer = Inl MalformedData
     \<or> parse version buffer = Inl UnsupportedTrackType"
  proof (cases "parse version buffer")
    case (Inl e)
    with parse_Inl[OF Inl] show ?thesis by auto
  next
    case (Inr cmab)
    from parse_Inr[OF Inr] obtain d n where
      d: "getUint32 buffer 0x24 = Inr d" "duration cmab = real d" "loopMode cmab = REPEAT" and
      n: "getUint32 buffer 0x38 = Inr n" and
      es: "parseAnimEntries version buffer 0x34 0x3C n = Inr (animEntries cmab)" by blast
    from parseAnimEntries_Inr[OF es] Inr d n show ?thesis by blast
  qed
  show "take 4 buffer \<noteq> cmab_signature \<longrightarrow> parse version buffer = Inl MalformedData"
    by (simp add: parse_wrong_signature)
qed

text \<open>
  The claim as stated leaves out the second error: a file that is well formed up to a
  track of type 3 with one keyframe fails with \<open>UnsupportedTrackType\<close>, which is neither
  a container nor \<open>MalformedData\<close>.
\<close>

theorem parse_all_or_nothing_counterexample:
  "parse Ocarina type3_cmab_buffer = Inl UnsupportedTrackType
   \<and> parse Ocarina type3_cmab_buffer \<noteq> Inl MalformedData"
  by (simp add: type3_cmab_buffer_def parse_eval cong: bind_err_weak_cong prod.case_cong_weak)

theorem parse_all_or_nothing_witness:
  "parse Ocarina late_start_buffer = Inr late_start_cmab
   \<and> getUint32 late_start_buffer 0x38 = Inr 1
   \<and> length (animEntries late_start_cmab) = 1
   \<and> getUint32 late_start_buffer 0x3C = Inr 0x0C
   \<and> parseMmad Ocarina (slice late_start_buffer (0x34 + 0x0C)) = Inr (animEntries late_start_cmab ! 0)
   \<and> take 4 wrong_signature_buffer \<noteq> cmab_signature
   \<and> parse Majora wrong_signature_buffer = Inl MalformedData"
proof -
  have w: "take 4 wrong_signature_buffer \<noteq> cmab_signature"
    by (simp add: wrong_signature_buffer_def cmab_signature_def)
  with parse_all_or_nothing[of Majora wrong_signature_buffer]
  have e: "parse Majora wrong_signature_buffer = Inl MalformedData" by blast
  have o: "getUint32 late_start_buffer 0x3C = Inr 0x0C"
    by (simp add: late_start_buffer_def getUint32_def)
  from parse_all_or_nothing[of Ocarina late_start_buffer] parse_late_start_buffer
  obtain n where n: "getUint32 late_start_buffer 0x38 = Inr n"
      "length (animEntries late_start_cmab) = n"
      "\<forall>i<n. \<exists>offs. getUint32 late_start_buffer (0x3C + 4 * i) = Inr offs \<and>
         parseMmad Ocarina (slice late_start_buffer (0x34 + offs)) = Inr (animEntries late_start_cmab ! i)"
    by auto
  from n(2) have n1: "n = 1" by (simp add: late_start_cmab_def)
  with n(3) o have "parseMmad Ocarina (slice late_start_buffer (0x34 + 0x0C)) = Inr (animEntries late_start_cmab ! 0)"
    by auto
  with w e o n(1,2) n1 parse_late_start_buffer show ?thesis by simp
qed

section \<open>Per-track sampling\<close>

text \<open>
  C7 (amended). For a linear track whose keyframe times do not decrease (in particular
  the strictly increasing times of the data model), and a frame \<open>f\<close> between two
  consecutive keyframes \<open>k0 = frames ! i\<close> and \<open>k1 = frames ! (i + 1)\<close>, with
  \<open>time k0 \<le> f < time k1\<close>, sampling returns the weighted average as the source computes
  it in binary64: first \<open>t = (f - time k0) / (time k1 - time k0)\<close>, then
  \<open>val k0 + (val k1 - val k0) * t\<close>, each of the six operations rounded to the nearest
  binary64 number. Where none of the six operations rounds, this is the exact weighted
  average \<open>val k0 + (val k1 - val k0) * (f - time k0) / (time k1 - time k0)\<close>. The track
  with the keyframes (0, 0) and (10, 10) sampled at frame 5 returns 5.
\<close>

theorem linear_sample_binary64:
  assumes "sorted (map time frames)"
    and "i + 1 < length frames"
    and "time (frames ! i) \<le> f"
    and "f < time (frames ! (i + 1))"
  shows "sampleAnimationTrackLinear frames f =
           Inr (f64_add (val (frames ! i))
                  (f64_mul (f64_sub (val (frames ! (i + 1))) (val (frames ! i)))
                     (f64_div (f64_sub f (time (frames ! i)))
                        (f64_sub (time (frames ! (i + 1))) (time (frames ! i))))))
         \<and> (round64 (f - time (frames ! i)) = f - time (frames ! i)
            \<and> round64 (time (frames ! (i + 1)) - time (frames ! i))
                 = time (frames ! (i + 1)) - time (frames ! i)
            \<and> round64 ((f - time (frames ! i)) / (time (frames ! (i + 1)) - time (frames ! i)))
                 = (f - time (frames ! i)) / (time (frames ! (i + 1)) - time (frames ! i))
            \<and> round64 (val (frames ! (i + 1)) - val (frames ! i))
                 = val (frames ! (i + 1)) - val (frames ! i)
            \<and> round64 ((val (frames ! (i + 1)) - val (frames ! i))
                        * ((f - time (frames ! i)) / (time (frames ! (i + 1)) - time (frames ! i))))
                 = (val (frames ! (i + 1)) - val (frames ! i))
                     * ((f - time (frames ! i)) / (time (frames ! (i + 1)) - time (frames ! i)))
            \<and> round64 (val (frames ! i) + (val (frames ! (i + 1)) - val (frames ! i))
                        * ((f - time (frames ! i)) / (time (frames ! (i + 1)) - time (frames ! i))))
                 = val (frames ! i) + (val (frames ! (i + 1)) - val (frames ! i))
                     * ((f - time (frames ! i)) / (time (frames ! (i + 1)) - time (frames ! i)))
            \<longrightarrow> sampleAnimationTrackLinear frames f =
                  Inr (val (frames ! i) + (val (frames ! (i + 1)) - val (frames ! i))
                         * (f - time (frames ! i)) / (time (frames ! (i + 1)) - time (frames ! i))))
         \<and> sampleAnimationTrackLinear [\<lparr>time = 0, val = 0\<rparr>, \<lparr>time = 10, val = 10\<rparr>] 5 = Inr 5"
proof (intro conjI impI)
  show s: "sampleAnimationTrackLinear frames f =
           Inr (f64_add (val (frames ! i))
                  (f64_mul (f64_sub (val (frames ! (i + 1))) (val (frames ! i)))
                     (f64_div (f64_sub f (time (frames ! i)))
                        (f64_sub (time (frames ! (i + 1))) (time (frames ! i))))))"
    using assms by (rule linear_sample_between)
  show "sampleAnimationTrackLinear [\<lparr>time = 0, val = 0\<rparr>, \<lparr>time = 10, val = 10\<rparr>] 5 = Inr 5"
    by (simp add: sampleAnimationTrackLinear_def array_at_def lerp_def f64_defs
        round64_5 round64_10 round64_half)
next
  assume "round64 (f - time (frames ! i)) = f - time (frames ! i)
            \<and> round64 (time (frames ! (i + 1)) - time (frames ! i))
                 = time (frames ! (i + 1)) - time (frames ! i)
            \<and> round64 ((f - time (frames ! i)) / (time (frames ! (i + 1)) - time (frames ! i)))
                 = (f - time (frames ! i)) / (time (frames ! (i + 1)) - time (frames ! i))
            \<and> round64 (val (frames ! (i + 1)) - val (frames ! i))
                 = val (frames ! (i + 1)) - val (frames ! i)
            \<and> round64 ((val (frames ! (i + 1)) - val (frames ! i))
                        * ((f - time (frames ! i)) / (time (frames ! (i + 1)) - time (frames ! i))))
                 = (val (frames ! (i + 1)) - val (frames ! i))
                     * ((f - time (frames ! i)) / (time (frames ! (i + 1)) - time (frames ! i)))
            \<and> round64 (val (frames ! i) + (val (frames ! (i + 1)) - val (frames ! i))
                        * ((f - time (frames ! i)) / (time (frames ! (i + 1)) - time (frames ! i))))
                 = val (frames ! i) + (val (frames ! (i + 1)) - val (frames ! i))
                     * ((f - time (frames ! i)) / (time (frames ! (i + 1)) - time (frames ! i)))"
  then have "f64_add (val (frames ! i))
                  (f64_mul (f64_sub (val (frames ! (i + 1))) (val (frames ! i)))
                     (f64_div (f64_sub f (time (frames ! i)))
                        (f64_sub (time (frames ! (i + 1))) (time (frames ! i)))))
             = val (frames ! i) + (val (frames ! (i + 1)) - val (frames ! i))
                     * ((f - time (frames ! i)) / (time (frames ! (i + 1)) - time (frames ! i)))"
    by (simp only: f64_defs)
  with linear_sample_between[OF assms]
  show "sampleAnimationTrackLinear frames f =
                  Inr (val (frames ! i) + (val (frames ! (i + 1)) - val (frames ! i))
                         * (f - time (frames ! i)) / (time (frames ! (i + 1)) - time (frames ! i)))"
    by simp
qed

text \<open>
  The claim as stated fails where an operation rounds. On the track with the keyframes
  (0, 0) and (22, 22) at frame 15 the weighted average is 15, and so is the formula of
  the claim evaluated in binary64 from left to right; the source divides first, and
  \<open>15 / 22\<close> and then \<open>22 * t\<close> are rounded down: the sample is the binary64 number
  just below 15, \<open>15 - 1 / 2 ^ 49\<close> (printed as 14.999999999999998).
\<close>

theorem linear_sample_weighted_average_counterexample:
  "sorted (map time rounding_frames)
   \<and> 0 + 1 < length rounding_frames
   \<and> time (rounding_frames ! 0) \<le> 15
   \<and> 15 < time (rounding_frames ! (0 + 1))
   \<and> val (rounding_frames ! 0) + (val (rounding_frames ! (0 + 1)) - val (rounding_frames ! 0))
        * (15 - time (rounding_frames ! 0))
        / (time (rounding_frames ! (0 + 1)) - time (rounding_frames ! 0)) = 15
   \<and> sampleAnimationTrackLinear rounding_frames 15 = Inr (15 - 1 / 2 ^ 49)
   \<and> sampleAnimationTrackLinear rounding_frames 15 \<noteq> Inr 15"
proof -
  have e: "sampleAnimationTrackLinear rounding_frames 15 =
             Inr (f64_add 0 (f64_mul (f64_sub 22 0) (f64_div (f64_sub 15 0) (f64_sub 22 0))))"
    using linear_sample_between[of rounding_frames 0 15] by (simp add: rounding_frames_def)
  have s1: "f64_sub 15 0 = 15" by (simp add: f64_sub_def round64_15)
  have s2: "f64_sub 22 0 = 22" by (simp add: f64_sub_def round64_22)
  have d: "f64_div 15 22 = 6141272219141585 / 2 ^ 53"
    by (simp only: f64_div_def round64_15_22)
  have m: "f64_mul 22 (6141272219141585 / 2 ^ 53) = 15 - 1 / 2 ^ 49"
    unfolding f64_mul_def by (rule round64_below_15) simp
  have a: "f64_add 0 (15 - 1 / 2 ^ 49) = 15 - 1 / 2 ^ 49"
    unfolding f64_add_def by (rule round64_pred_15) simp
  have "sampleAnimationTrackLinear rounding_frames 15 = Inr (15 - 1 / 2 ^ 49)"
    by (simp only: e s1 s2 d m a)
  then show ?thesis by (simp add: rounding_frames_def)
qed

theorem linear_sample_binary64_witness:
  "sorted (map time ex_linear_frames)
   \<and> 1 + 1 < length ex_linear_frames
   \<and> time (ex_linear_frames ! 1) \<le> 5
   \<and> 5 < time (ex_linear_frames ! (1 + 1))
   \<and> round64 (5 - time (ex_linear_frames ! 1)) = 5 - time (ex_linear_frames ! 1)
   \<and> round64 (time (ex_linear_frames ! (1 + 1)) - time (ex_linear_frames ! 1))
        = time (ex_linear_frames ! (1 + 1)) - time (ex_linear_frames ! 1)
   \<and> round64 ((5 - time (ex_linear_frames ! 1))
                / (time (ex_linear_frames ! (1 + 1)) - time (ex_linear_frames ! 1)))
        = (5 - time (ex_linear_frames ! 1))
            / (time (ex_linear_frames ! (1 + 1)) - time (ex_linear_frames ! 1))
   \<and> round64 (val (ex_linear_frames ! (1 + 1)) - val (ex_linear_frames ! 1))
        = val (ex_linear_frames ! (1 + 1)) - val (ex_linear_frames ! 1)
   \<and> round64 (8 * (1 / 4)) = 8 * (1 / 4)
   \<and> round64 (3 + 8 * (1 / 4)) = 3 + 8 * (1 / 4)
   \<and> sampleAnimationTrackLinear ex_linear_frames 5 = Inr 5"
  using linear_sample_binary64 [of ex_linear_frames 1 5]
  by (simp add: ex_linear_frames_def f64_defs round64_1 round64_2 round64_4 round64_5
      round64_8 round64_quarter)

text \<open>
  C8. For a Hermite track whose keyframe times do not decrease, and a frame \<open>f\<close> between
  two consecutive keyframes \<open>k0 = frames ! i\<close> and \<open>k1 = frames ! (i + 1)\<close> that are exactly
  one frame apart, sampling returns the value of \<open>k0\<close>, whatever the fractional part of
  \<open>f\<close> and whatever the tangents are.
\<close>

theorem hermite_unit_step_returns_start_value:
  assumes "sorted (map time frames)"
    and "i + 1 < length frames"
    and "time (frames ! i) \<le> f"
    and "f < time (frames ! (i + 1))"
    and "time (frames ! (i + 1)) - time (frames ! i) = 1"
  shows "sampleAnimationTrackHermite frames f = Inr (val (frames ! i))"
proof -
  have idx: "findIndex (\<lambda>key. f < time key) frames = int (i + 1)"
    using assms(1-4) by (rule findIndex_bracket)
  from assms(2) have len: "length frames \<noteq> 1" by simp
  from assms(2,5) show ?thesis
    by (simp add: sampleAnimationTrackHermite_def idx len array_at_def Let_def nat_add_distrib)
qed

theorem hermite_unit_step_returns_start_value_witness:
  "sorted (map time ex_hermite_frames)
   \<and> 0 + 1 < length ex_hermite_frames
   \<and> time (ex_hermite_frames ! 0) \<le> 7 / 2
   \<and> 7 / 2 < time (ex_hermite_frames ! (0 + 1))
   \<and> time (ex_hermite_frames ! (0 + 1)) - time (ex_hermite_frames ! 0) = 1
   \<and> sampleAnimationTrackHermite ex_hermite_frames (7 / 2) = Inr 7"
  using hermite_unit_step_returns_start_value [of ex_hermite_frames 0 "7 / 2"]
  by (simp add: ex_hermite_frames_def)

section \<open>Frame normalization\<close>

text \<open>
  C2 (amended). For a container with loop mode REPEAT and every \<open>k\<close> with
  \<open>0 < k < duration\<close>, frame normalization maps \<open>duration + k\<close> to \<open>k\<close>, as it maps
  \<open>k\<close>; so every track, \<^verbatim>\<open>calcTexMtx\<close> and \<^verbatim>\<open>calcMaterialColor\<close> give at
  \<open>duration + k\<close> what they give at \<open>k\<close>.
\<close>

theorem repeat_wraps_frame:
  assumes "loopMode cmab = REPEAT" and "0 < k" and "k < duration cmab"
  shows "getAnimFrame cmab (duration cmab + k) = Some k
         \<and> getAnimFrame cmab k = Some k
         \<and> (\<forall>track. map_option (sampleAnimationTrack track) (getAnimFrame cmab (duration cmab + k))
                     = map_option (sampleAnimationTrack track) (getAnimFrame cmab k))
         \<and> calcTexMtx cmab animEntry (duration cmab + k) = calcTexMtx cmab animEntry k
         \<and> calcMaterialColor cmab animEntry (duration cmab + k) = calcMaterialColor cmab animEntry k"
proof -
  have k: "getAnimFrame cmab k = Some k"
    using assms by (simp add: getAnimFrame_def getAnimFrame_while_done)
  have "getAnimFrame_while (duration cmab) (duration cmab + k) = getAnimFrame_while (duration cmab) k"
    using assms(2) getAnimFrame_while_step[of "duration cmab" "duration cmab + k"] by simp
  with assms have dk: "getAnimFrame cmab (duration cmab + k) = Some k"
    by (simp add: getAnimFrame_def getAnimFrame_while_done)
  from k dk calc_cong[of cmab "duration cmab + k" k animEntry] show ?thesis by simp
qed

text \<open>
  The claim as stated fails at \<open>k = 0\<close>: the loop runs while the frame is greater than the
  duration, so the frame \<open>duration + 0\<close> stays where it is. With duration 10 and the track
  from (0, 0) to (10, 10), the sample at frame 10 is 10 and the sample at frame 0 is 0.
\<close>

theorem repeat_wraps_frame_counterexample:
  "loopMode (ex_cmab REPEAT 10) = REPEAT \<and> 0 < duration (ex_cmab REPEAT 10)
   \<and> (0::real) \<le> 0 \<and> 0 < duration (ex_cmab REPEAT 10)
   \<and> map_option (sampleAnimationTrack ex_linear_track)
        (getAnimFrame (ex_cmab REPEAT 10) (duration (ex_cmab REPEAT 10) + 0)) = Some (Inr 10)
   \<and> map_option (sampleAnimationTrack ex_linear_track)
        (getAnimFrame (ex_cmab REPEAT 10) 0) = Some (Inr 0)
   \<and> calcTexMtx (ex_cmab REPEAT 10) ex_translation_entry (duration (ex_cmab REPEAT 10) + 0)
       \<noteq> calcTexMtx (ex_cmab REPEAT 10) ex_translation_entry 0"
  by (simp add: ex_cmab_def ex_translation_entry_def ex_linear_track_def getAnimFrame_def
      getAnimFrame_while_done sample_eval)

theorem repeat_wraps_frame_witness:
  "loopMode (ex_cmab REPEAT 10) = REPEAT \<and> (0::real) < 5 \<and> 5 < duration (ex_cmab REPEAT 10)
   \<and> getAnimFrame (ex_cmab REPEAT 10) (duration (ex_cmab REPEAT 10) + 5) = Some 5
   \<and> calcTexMtx (ex_cmab REPEAT 10) ex_translation_entry (10 + 5)
       = calcTexMtx (ex_cmab REPEAT 10) ex_translation_entry 5"
  using repeat_wraps_frame [of "ex_cmab REPEAT 10" 5 ex_translation_entry]
  by (simp add: ex_cmab_def)

text \<open>
  C9. For a container with loop mode ONCE and every frame at or after the duration, frame
  normalization returns the duration, as it does for the duration itself; so every track,
  \<^verbatim>\<open>calcTexMtx\<close> and \<^verbatim>\<open>calcMaterialColor\<close> give at that frame what they give at the
  duration.
\<close>

theorem once_clamps_frame:
  assumes "loopMode cmab = ONCE" and "duration cmab \<le> frame"
  shows "getAnimFrame cmab frame = Some (duration cmab)
         \<and> getAnimFrame cmab (duration cmab) = Some (duration cmab)
         \<and> (\<forall>track. map_option (sampleAnimationTrack track) (getAnimFrame cmab frame)
                     = map_option (sampleAnimationTrack track) (getAnimFrame cmab (duration cmab)))
         \<and> calcTexMtx cmab animEntry frame = calcTexMtx cmab animEntry (duration cmab)
         \<and> calcMaterialColor cmab animEntry frame = calcMaterialColor cmab animEntry (duration cmab)"
proof -
  have a: "getAnimFrame cmab frame = Some (duration cmab)"
    using assms by (auto simp: getAnimFrame_def Let_def)
  have b: "getAnimFrame cmab (duration cmab) = Some (duration cmab)"
    using assms by (simp add: getAnimFrame_def)
  from a b calc_cong[of cmab frame "duration cmab" animEntry] show ?thesis by simp
qed

theorem once_clamps_frame_witness:
  "loopMode (ex_cmab ONCE 10) = ONCE \<and> duration (ex_cmab ONCE 10) \<le> 15
   \<and> getAnimFrame (ex_cmab ONCE 10) 15 = Some 10
   \<and> calcTexMtx (ex_cmab ONCE 10) ex_translation_entry 15
       = calcTexMtx (ex_cmab ONCE 10) ex_translation_entry 10
   \<and> calcTexMtx (ex_cmab ONCE 10) ex_translation_entry 15
       = Some (Inr (mat4_identity[12 := - 10, 13 := - 0]))"
proof -
  have c: "calcTexMtx (ex_cmab ONCE 10) ex_translation_entry 10
       = Some (Inr (mat4_identity[12 := - 10, 13 := - 0]))"
    by (simp add: ex_cmab_def ex_translation_entry_def ex_linear_track_def getAnimFrame_def
        sample_eval)
  from once_clamps_frame [of "ex_cmab ONCE 10" 15 ex_translation_entry] c
  show ?thesis by (simp add: ex_cmab_def)
qed

text \<open>
  C4 (what the source does instead). The file of duration 0 parses to a container with
  duration 0 and loop mode REPEAT; on it the loop of \<^verbatim>\<open>getAnimFrame\<close> at frame 1
  subtracts 0 for ever, so neither \<^verbatim>\<open>getAnimFrame\<close> nor an animator returns.
\<close>

theorem getAnimFrame_zero_duration_diverges:
  "parse Ocarina zero_duration_buffer = Inr zero_duration_cmab
   \<and> duration zero_duration_cmab = 0 \<and> loopMode zero_duration_cmab = REPEAT
   \<and> getAnimFrame zero_duration_cmab 1 = None
   \<and> calcTexMtx zero_duration_cmab ex_translation_entry 1 = None
   \<and> calcMaterialColor zero_duration_cmab ex_translation_entry 1 = None"
proof -
  have "getAnimFrame zero_duration_cmab 1 = None"
    by (simp add: getAnimFrame_def zero_duration_cmab_def getAnimFrame_while_zero)
  with parse_zero_duration_buffer show ?thesis
    by (simp add: calcTexMtx_def calcMaterialColor_def zero_duration_cmab_def)
qed

section \<open>Sampling a parsed container\<close>

text \<open>
  C3 (what the source does instead). The file \<open>late_start_buffer\<close> parses; its only track
  has two keyframes with strictly increasing times 5 and 10, in a ROTATION entry. At
  frame 0 frame normalization returns 0, \<^verbatim>\<open>findIndex\<close> returns 0, the keyframe before
  it is \<^verbatim>\<open>frames[-1]\<close>, which is \<^verbatim>\<open>undefined\<close>, and reading its time throws: the
  track sample and \<^verbatim>\<open>calcTexMtx\<close> fail.
\<close>

theorem sampling_before_first_keyframe_fails:
  "parse Ocarina late_start_buffer = Inr late_start_cmab
   \<and> animEntries late_start_cmab = [late_start_entry]
   \<and> animationType late_start_entry = ROTATION
   \<and> tracks late_start_entry = [Some (AnimationTrackLinear late_start_frames)]
   \<and> sorted_wrt (<) (map time late_start_frames)
   \<and> getAnimFrame late_start_cmab 0 = Some 0
   \<and> sampleAnimationTrack (AnimationTrackLinear late_start_frames) 0 = Inl TypeError
   \<and> calcTexMtx late_start_cmab late_start_entry 0 = Some (Inl TypeError)"
proof -
  have g: "getAnimFrame late_start_cmab 0 = Some 0"
    by (simp add: late_start_cmab_def getAnimFrame_def getAnimFrame_while_done)
  have l: "sampleAnimationTrackLinear late_start_frames 0 = Inl TypeError"
    by (simp add: late_start_frames_def sampleAnimationTrackLinear_def array_at_def)
  then have s: "sampleAnimationTrack (AnimationTrackLinear late_start_frames) 0 = Inl TypeError"
    by simp
  have c: "calcTexMtx late_start_cmab late_start_entry 0 = Some (Inl TypeError)"
    by (simp add: calcTexMtx_def g late_start_entry_def sampleSlot_def slot_at_def l
        ROTATION_def TRANSLATION_def bind_err_Inl)
  from parse_late_start_buffer g s c show ?thesis
    by (simp add: late_start_cmab_def late_start_entry_def late_start_frames_def)
qed

end
